theory Spec2Isabelle
  imports
    Complex_Main
    "HOL-Library.Char_ord"
    "HOL-Library.List_Lexorder"
    "HOL-Library.Multiset"
begin

section \<open>The stored data (src/database/schema.sql, product-templates-schema.sql)\<close>

text \<open>
  Every table is the list of its rows in insertion order. A TEXT column is a
  \<open>string\<close>, a nullable column an \<open>option\<close> (\<open>None\<close> is SQL NULL), a
  BOOLEAN column the integer 0 or 1 the statements write, CURRENT_TIMESTAMP an
  argument \<open>now\<close> of the operation. Columns that several tables share
  (\<open>is_active\<close>, \<open>created_at\<close>, \<open>updated_at\<close>, \<open>description\<close>) carry the
  table's name as a prefix, field names being global.
\<close>

type_synonym timestamp = string

record color =
  color_id :: int
  color_name :: string
  hex_code :: string
  pantone_code :: "string option"
  material_type :: "string option"
  supplier :: "string option"
  category :: "string option"
  cost_per_gram :: "rat option"
  stock_grams :: "rat option"
  color_is_active :: int
  color_created_at :: timestamp
  color_updated_at :: timestamp

record part =
  part_id :: int
  part_code :: "string option"
  part_name :: string
  part_description :: "string option"
  part_is_active :: int
  part_created_at :: timestamp
  part_updated_at :: timestamp

record product_template =
  template_id :: int
  template_name :: string
  template_description :: "string option"
  num_colors :: int
  print_time_minutes :: int
  print_cost :: rat
  template_is_active :: int
  template_created_at :: timestamp
  template_updated_at :: timestamp

record template_part =
  tp_template_id :: int
  tp_part_id :: int
  quantity :: int

record order =
  order_id :: int
  order_number :: string
  customer_name :: string
  platform :: string
  order_notes :: "string option"
  ship_by_date :: string
  is_express :: int
  is_archived :: int
  order_created_at :: timestamp
  order_updated_at :: timestamp
  shipped_at :: "timestamp option"

record product =
  product_id :: int
  p_order_id :: int
  product_name :: string
  product_created_at :: timestamp
  product_updated_at :: timestamp

record item =
  item_id :: int
  i_product_id :: int
  item_name :: string
  status :: string
  item_created_at :: timestamp
  item_updated_at :: timestamp

record status_history_row =
  history_id :: int
  h_item_id :: int
  old_status :: "string option"
  new_status :: string
  changed_at :: timestamp
  reason :: "string option"

text \<open>
  The database: the tables, and for each AUTOINCREMENT key the largest rowid
  handed out so far (SQLite's sqlite_sequence).
\<close>

record database =
  colors :: "color list"
  colors_seq :: int
  parts :: "part list"
  parts_seq :: int
  product_templates :: "product_template list"
  product_templates_seq :: int
  template_parts :: "template_part list"
  orders :: "order list"
  orders_seq :: int
  products :: "product list"
  products_seq :: int
  items :: "item list"
  items_seq :: int
  status_history :: "status_history_row list"
  status_history_seq :: int

definition empty_database :: database where
  "empty_database =
     \<lparr>colors = [], colors_seq = 0, parts = [], parts_seq = 0,
      product_templates = [], product_templates_seq = 0, template_parts = [],
      orders = [], orders_seq = 0, products = [], products_seq = 0,
      items = [], items_seq = 0, status_history = [], status_history_seq = 0\<rparr>"

text \<open>
  What a statement or a model function throws: the constraint failures of
  SQLite (their message names the constraint) and a JavaScript \<open>Error\<close>
  with its message.
\<close>

datatype db_error =
    UNIQUE_constraint_failed string
  | NOT_NULL_constraint_failed string
  | CHECK_constraint_failed string
  | FOREIGN_KEY_constraint_failed
  | Error string

text \<open>
  INTEGER PRIMARY KEY AUTOINCREMENT: the new rowid is one more than the
  largest rowid the table ever held.
\<close>

definition next_rowid :: "int \<Rightarrow> int list \<Rightarrow> int" where
  "next_rowid seq ids = fold max ids (max seq 0) + 1"

text \<open>JavaScript's \<open>x || null\<close> on a string and \<open>x || 0\<close> on a number.\<close>

definition or_null :: "string option \<Rightarrow> string option" where
  "or_null v = (case v of None \<Rightarrow> None | Some s \<Rightarrow> if s = [] then None else Some s)"

definition or_zero :: "rat option \<Rightarrow> rat" where
  "or_zero v = (case v of None \<Rightarrow> 0 | Some r \<Rightarrow> r)"

text \<open>JavaScript's \<open>!x\<close> on a string property that may be missing.\<close>

definition falsy :: "string option \<Rightarrow> bool" where
  "falsy v = (case v of None \<Rightarrow> True | Some s \<Rightarrow> s = [])"

section \<open>Color model (src/models/Color.js)\<close>

text \<open>
  The argument of \<open>create\<close> and \<open>update\<close>: the request body, every property
  of which may be missing.
\<close>

record colorData =
  d_color_name :: "string option"
  d_hex_code :: "string option"
  d_pantone_code :: "string option"
  d_material_type :: "string option"
  d_supplier :: "string option"
  d_category :: "string option"
  d_cost_per_gram :: "rat option"
  d_stock_grams :: "rat option"

text \<open>
  \<open>getAll\<close>: ORDER BY color_name ASC compares the texts byte by byte (the
  BINARY collation), which is the lexicographic order of \<open>string\<close>;
  \<open>color_name\<close> is UNIQUE, so the order of equal names never matters.
\<close>

definition Color_getAll :: "database \<Rightarrow> bool \<Rightarrow> color list" where
  "Color_getAll db includeInactive =
     (if includeInactive then sort_key color_name (colors db)
      else sort_key color_name (filter (\<lambda>c. color_is_active c = 1) (colors db)))"

definition Color_getById :: "database \<Rightarrow> int \<Rightarrow> color option" where
  "Color_getById db colorId = find (\<lambda>c. color_id c = colorId) (colors db)"

text \<open>
  \<open>create\<close>: one INSERT, then \<open>getById(lastInsertRowid)\<close>. A missing
  \<open>color_name\<close> or \<open>hex_code\<close> never reaches the table (NOT NULL), a
  \<open>color_name\<close> already stored fails the UNIQUE constraint; a failed INSERT
  writes nothing.
\<close>

definition Color_create ::
  "database \<Rightarrow> timestamp \<Rightarrow> colorData \<Rightarrow> db_error + (database \<times> color option)" where
  "Color_create db now colorData =
     (case d_color_name colorData of
        None \<Rightarrow> Inl (NOT_NULL_constraint_failed ''colors.color_name'')
      | Some name \<Rightarrow>
     (case d_hex_code colorData of
        None \<Rightarrow> Inl (NOT_NULL_constraint_failed ''colors.hex_code'')
      | Some hex \<Rightarrow>
        if name \<in> set (map color_name (colors db))
        then Inl (UNIQUE_constraint_failed ''colors.color_name'')
        else
          let lastInsertRowid = next_rowid (colors_seq db) (map color_id (colors db));
              row = \<lparr>color_id = lastInsertRowid, color_name = name, hex_code = hex,
                     pantone_code = or_null (d_pantone_code colorData),
                     material_type = or_null (d_material_type colorData),
                     supplier = or_null (d_supplier colorData),
                     category = or_null (d_category colorData),
                     cost_per_gram = Some (or_zero (d_cost_per_gram colorData)),
                     stock_grams = Some (or_zero (d_stock_grams colorData)),
                     color_is_active = 1,
                     color_created_at = now, color_updated_at = now\<rparr>;
              db' = db\<lparr>colors := colors db @ [row], colors_seq := lastInsertRowid\<rparr>
          in Inr (db', Color_getById db' lastInsertRowid)))"

text \<open>
  \<open>update\<close>: one UPDATE of the row with the given id. With no such row
  nothing is checked or written and the result is \<open>null\<close>.
\<close>

definition Color_update ::
  "database \<Rightarrow> timestamp \<Rightarrow> int \<Rightarrow> colorData \<Rightarrow> db_error + (database \<times> color option)" where
  "Color_update db now colorId colorData =
     (if \<not> (\<exists>c \<in> set (colors db). color_id c = colorId) then Inr (db, None)
      else
     (case d_color_name colorData of
        None \<Rightarrow> Inl (NOT_NULL_constraint_failed ''colors.color_name'')
      | Some name \<Rightarrow>
     (case d_hex_code colorData of
        None \<Rightarrow> Inl (NOT_NULL_constraint_failed ''colors.hex_code'')
      | Some hex \<Rightarrow>
        if \<exists>c \<in> set (colors db). color_id c \<noteq> colorId \<and> color_name c = name
        then Inl (UNIQUE_constraint_failed ''colors.color_name'')
        else
          let db' = db\<lparr>colors := map (\<lambda>c. if color_id c = colorId
                       then c\<lparr>color_name := name, hex_code := hex,
                              pantone_code := or_null (d_pantone_code colorData),
                              material_type := or_null (d_material_type colorData),
                              supplier := or_null (d_supplier colorData),
                              category := or_null (d_category colorData),
                              cost_per_gram := Some (or_zero (d_cost_per_gram colorData)),
                              stock_grams := Some (or_zero (d_stock_grams colorData)),
                              color_updated_at := now\<rparr>
                       else c) (colors db)\<rparr>
          in Inr (db', Color_getById db' colorId))))"

text \<open>
  \<open>deactivate\<close> and \<open>activate\<close>: one UPDATE of \<open>is_active\<close>; the result is
  \<open>result.changes > 0\<close>, the number of rows the WHERE clause matched. The
  colors table has no update trigger, so no other column is written.
\<close>

definition Color_deactivate :: "database \<Rightarrow> int \<Rightarrow> database \<times> bool" where
  "Color_deactivate db colorId =
     (db\<lparr>colors := map (\<lambda>c. if color_id c = colorId then c\<lparr>color_is_active := 0\<rparr> else c)
                        (colors db)\<rparr>,
      length (filter (\<lambda>c. color_id c = colorId) (colors db)) > 0)"

definition Color_activate :: "database \<Rightarrow> int \<Rightarrow> database \<times> bool" where
  "Color_activate db colorId =
     (db\<lparr>colors := map (\<lambda>c. if color_id c = colorId then c\<lparr>color_is_active := 1\<rparr> else c)
                        (colors db)\<rparr>,
      length (filter (\<lambda>c. color_id c = colorId) (colors db)) > 0)"

section \<open>Part model (src/models/Part.js)\<close>

record partData =
  d_part_code :: "string option"
  d_part_name :: "string option"
  d_description :: "string option"

definition Part_getAll :: "database \<Rightarrow> bool \<Rightarrow> part list" where
  "Part_getAll db includeInactive =
     (if includeInactive then sort_key part_name (parts db)
      else sort_key part_name (filter (\<lambda>p. part_is_active p = 1) (parts db)))"

definition Part_getById :: "database \<Rightarrow> int \<Rightarrow> part option" where
  "Part_getById db partId = find (\<lambda>p. part_id p = partId) (parts db)"

definition Part_getByCode :: "database \<Rightarrow> string \<Rightarrow> part option" where
  "Part_getByCode db partCode = find (\<lambda>p. part_code p = Some partCode) (parts db)"

text \<open>
  \<open>create\<close>: \<open>part_code\<close> is UNIQUE but nullable (NULLs never collide),
  \<open>part_name\<close> is NOT NULL UNIQUE.
\<close>

definition Part_create ::
  "database \<Rightarrow> timestamp \<Rightarrow> partData \<Rightarrow> db_error + (database \<times> part option)" where
  "Part_create db now partData =
     (case d_part_name partData of
        None \<Rightarrow> Inl (NOT_NULL_constraint_failed ''parts.part_name'')
      | Some name \<Rightarrow>
        if d_part_code partData \<noteq> None
           \<and> d_part_code partData \<in> set (map part_code (parts db))
        then Inl (UNIQUE_constraint_failed ''parts.part_code'')
        else if name \<in> set (map part_name (parts db))
        then Inl (UNIQUE_constraint_failed ''parts.part_name'')
        else
          let lastInsertRowid = next_rowid (parts_seq db) (map part_id (parts db));
              row = \<lparr>part_id = lastInsertRowid, part_code = d_part_code partData,
                     part_name = name,
                     part_description = or_null (d_description partData),
                     part_is_active = 1,
                     part_created_at = now, part_updated_at = now\<rparr>;
              db' = db\<lparr>parts := parts db @ [row], parts_seq := lastInsertRowid\<rparr>
          in Inr (db', Part_getById db' lastInsertRowid))"

definition Part_update ::
  "database \<Rightarrow> timestamp \<Rightarrow> int \<Rightarrow> partData \<Rightarrow> db_error + (database \<times> part option)" where
  "Part_update db now partId partData =
     (if \<not> (\<exists>p \<in> set (parts db). part_id p = partId) then Inr (db, None)
      else
     (case d_part_name partData of
        None \<Rightarrow> Inl (NOT_NULL_constraint_failed ''parts.part_name'')
      | Some name \<Rightarrow>
        if d_part_code partData \<noteq> None
           \<and> (\<exists>p \<in> set (parts db). part_id p \<noteq> partId \<and> part_code p = d_part_code partData)
        then Inl (UNIQUE_constraint_failed ''parts.part_code'')
        else if \<exists>p \<in> set (parts db). part_id p \<noteq> partId \<and> part_name p = name
        then Inl (UNIQUE_constraint_failed ''parts.part_name'')
        else
          let db' = db\<lparr>parts := map (\<lambda>p. if part_id p = partId
                       then p\<lparr>part_code := d_part_code partData, part_name := name,
                              part_description := or_null (d_description partData),
                              part_updated_at := now\<rparr>
                       else p) (parts db)\<rparr>
          in Inr (db', Part_getById db' partId)))"

definition Part_deactivate :: "database \<Rightarrow> int \<Rightarrow> database \<times> bool" where
  "Part_deactivate db partId =
     (db\<lparr>parts := map (\<lambda>p. if part_id p = partId then p\<lparr>part_is_active := 0\<rparr> else p)
                       (parts db)\<rparr>,
      length (filter (\<lambda>p. part_id p = partId) (parts db)) > 0)"

definition Part_activate :: "database \<Rightarrow> int \<Rightarrow> database \<times> bool" where
  "Part_activate db partId =
     (db\<lparr>parts := map (\<lambda>p. if part_id p = partId then p\<lparr>part_is_active := 1\<rparr> else p)
                       (parts db)\<rparr>,
      length (filter (\<lambda>p. part_id p = partId) (parts db)) > 0)"

section \<open>ProductTemplate model (src/models/ProductTemplate.js)\<close>

record templatePartData =
  pd_part_id :: int
  pd_quantity :: "int option"

text \<open>
  The argument of \<open>create\<close>. A missing \<open>parts\<close> array and an empty one take
  the same branch (\<open>parts && parts.length > 0\<close>), so the field is a list.
\<close>

record templateData =
  d_template_name :: "string option"
  d_template_description :: "string option"
  d_num_colors :: "int option"
  d_print_time_minutes :: "int option"
  d_print_cost :: "rat option"
  d_parts :: "templatePartData list"

text \<open>A row of the join in \<open>getById\<close>, and the object \<open>getById\<close> returns.\<close>

record template_part_view =
  v_part_id :: int
  v_part_code :: "string option"
  v_part_name :: string
  v_description :: "string option"
  v_quantity :: int

record template_with_parts =
  t_template :: product_template
  t_parts :: "template_part_view list"

definition ProductTemplate_getById :: "database \<Rightarrow> int \<Rightarrow> template_with_parts option" where
  "ProductTemplate_getById db templateId =
     (case find (\<lambda>t. template_id t = templateId) (product_templates db) of
        None \<Rightarrow> None
      | Some template \<Rightarrow>
          Some \<lparr>t_template = template,
                t_parts = sort_key v_part_name
                  [\<lparr>v_part_id = part_id p, v_part_code = part_code p,
                    v_part_name = part_name p, v_description = part_description p,
                    v_quantity = quantity tp\<rparr>.
                   tp \<leftarrow> template_parts db, tp_template_id tp = templateId,
                   p \<leftarrow> parts db, part_id p = tp_part_id tp]\<rparr>)"

text \<open>
  One \<open>INSERT INTO template_parts\<close> of the loop in \<open>create\<close>: the primary key
  (template_id, part_id) must be new and the part must exist (foreign key);
  \<open>part.quantity || 1\<close> turns a missing or zero quantity into 1.
\<close>

definition quantity_or_1 :: "int option \<Rightarrow> int" where
  "quantity_or_1 q = (case q of None \<Rightarrow> 1 | Some n \<Rightarrow> if n = 0 then 1 else n)"

fun insert_template_parts ::
  "database \<Rightarrow> int \<Rightarrow> templatePartData list \<Rightarrow> db_error + database" where
  "insert_template_parts db templateId [] = Inr db"
| "insert_template_parts db templateId (part # rest) =
     (if \<exists>tp \<in> set (template_parts db).
           tp_template_id tp = templateId \<and> tp_part_id tp = pd_part_id part
      then Inl (UNIQUE_constraint_failed ''template_parts.template_id, template_parts.part_id'')
      else if \<not> (\<exists>p \<in> set (parts db). part_id p = pd_part_id part)
              \<or> \<not> (\<exists>t \<in> set (product_templates db). template_id t = templateId)
      then Inl FOREIGN_KEY_constraint_failed
      else insert_template_parts
             (db\<lparr>template_parts := template_parts db @
                   [\<lparr>tp_template_id = templateId, tp_part_id = pd_part_id part,
                     quantity = quantity_or_1 (pd_quantity part)\<rparr>]\<rparr>)
             templateId rest)"

text \<open>
  \<open>create\<close>: the two validations, then one transaction (the template row,
  then one row per supplied part), then \<open>getById\<close>. An error inside the
  transaction rolls all of it back: the caller keeps the database it had.
\<close>

definition ProductTemplate_create ::
  "database \<Rightarrow> timestamp \<Rightarrow> templateData \<Rightarrow>
     db_error + (database \<times> template_with_parts option)" where
  "ProductTemplate_create db now templateData =
     (case d_template_name templateData of
        None \<Rightarrow> Inl (Error ''template_name is required'')
      | Some name \<Rightarrow>
     if name = [] then Inl (Error ''template_name is required'')
     else
     (case d_num_colors templateData of
        None \<Rightarrow> Inl (Error ''num_colors must be between 1 and 4'')
      | Some n \<Rightarrow>
        if n = 0 \<or> n < 1 \<or> n > 4 then Inl (Error ''num_colors must be between 1 and 4'')
        else if name \<in> set (map template_name (product_templates db))
        then Inl (UNIQUE_constraint_failed ''product_templates.template_name'')
        else
          let templateId = next_rowid (product_templates_seq db)
                             (map template_id (product_templates db));
              row = \<lparr>template_id = templateId,
                     template_name = name,
                     template_description = or_null (d_template_description templateData),
                     num_colors = n,
                     print_time_minutes =
                       (case d_print_time_minutes templateData of None \<Rightarrow> 0 | Some m \<Rightarrow> m),
                     print_cost = or_zero (d_print_cost templateData),
                     template_is_active = 1,
                     template_created_at = now, template_updated_at = now\<rparr>;
              db1 = db\<lparr>product_templates := product_templates db @ [row],
                       product_templates_seq := templateId\<rparr>
          in (case insert_template_parts db1 templateId (d_parts templateData) of
                Inl e \<Rightarrow> Inl e
              | Inr db2 \<Rightarrow> Inr (db2, ProductTemplate_getById db2 templateId))))"

text \<open>
  \<open>addPart\<close>: INSERT ... ON CONFLICT(template_id, part_id) DO UPDATE SET
  quantity. A row with that key gets the new quantity; otherwise a row is
  inserted, which needs the template and the part to exist (foreign keys).
  The statement reads nothing else of the part: \<open>is_active\<close> is not looked at.
\<close>

definition ProductTemplate_addPart ::
  "database \<Rightarrow> int \<Rightarrow> int \<Rightarrow> int \<Rightarrow> db_error + (database \<times> bool)" where
  "ProductTemplate_addPart db templateId partId qty =
     (if \<exists>tp \<in> set (template_parts db). tp_template_id tp = templateId \<and> tp_part_id tp = partId
      then Inr (db\<lparr>template_parts :=
                     map (\<lambda>tp. if tp_template_id tp = templateId \<and> tp_part_id tp = partId
                               then tp\<lparr>quantity := qty\<rparr> else tp) (template_parts db)\<rparr>,
                True)
      else if \<not> (\<exists>t \<in> set (product_templates db). template_id t = templateId)
              \<or> \<not> (\<exists>p \<in> set (parts db). part_id p = partId)
      then Inl FOREIGN_KEY_constraint_failed
      else Inr (db\<lparr>template_parts := template_parts db @
                     [\<lparr>tp_template_id = templateId, tp_part_id = partId, quantity = qty\<rparr>]\<rparr>,
                True))"

subsection \<open>getAll: the parts of a template through JSON text\<close>

text \<open>
  \<open>getAll\<close> builds, in SQL, one JSON object per joined row with
  \<open>json_object\<close>, joins the texts of a group with \<open>GROUP_CONCAT\<close> and parses
  \<open>[parts_json]\<close> with \<open>JSON.parse\<close>. The model keeps the text: the
  rendering of SQLite's \<open>json_object\<close> (SQL NULL becomes the JSON \<open>null\<close>),
  \<open>GROUP_CONCAT\<close> (the non-NULL values joined by a comma, NULL when there is
  none) and a parser for the JSON these texts are made of: arrays of objects
  whose values are integers, strings and \<open>null\<close>.
\<close>

datatype json_value = JNull | JNum int | JStr string

type_synonym json_object = "(string \<times> json_value) list"

definition digit_char :: "nat \<Rightarrow> char" where
  "digit_char d = char_of (of_char (CHR ''0'') + d)"

fun string_of_nat :: "nat \<Rightarrow> string" where
  "string_of_nat n =
     (if n < 10 then [digit_char n] else string_of_nat (n div 10) @ [digit_char (n mod 10)])"

declare string_of_nat.simps [simp del]

definition string_of_int :: "int \<Rightarrow> string" where
  "string_of_int i = (if i < 0 then CHR ''-'' # string_of_nat (nat (- i)) else string_of_nat (nat i))"

definition json_quote :: "string \<Rightarrow> string" where
  "json_quote s =
     CHR 0x22 # concat (map (\<lambda>c. if c = CHR 0x22 \<or> c = CHR 0x5C then [CHR 0x5C, c] else [c]) s)
     @ [CHR 0x22]"

fun json_text :: "json_value \<Rightarrow> string" where
  "json_text JNull = ''null''"
| "json_text (JNum i) = string_of_int i"
| "json_text (JStr s) = json_quote s"

fun json_members :: "json_object \<Rightarrow> string" where
  "json_members [] = []"
| "json_members [(k, v)] = json_quote k @ '':'' @ json_text v"
| "json_members ((k, v) # m # ms) = json_quote k @ '':'' @ json_text v @ '','' @ json_members (m # ms)"

definition json_object_text :: "json_object \<Rightarrow> string" where
  "json_object_text mems = ''{'' @ json_members mems @ ''}''"

fun join_comma :: "string list \<Rightarrow> string" where
  "join_comma [] = []"
| "join_comma [s] = s"
| "join_comma (s # t # ts) = s @ '','' @ join_comma (t # ts)"

definition GROUP_CONCAT :: "string option list \<Rightarrow> string option" where
  "GROUP_CONCAT vals =
     (case List.map_filter id vals of [] \<Rightarrow> None | s # ss \<Rightarrow> Some (join_comma (s # ss)))"

datatype token =
  TLBrace | TRBrace | TLBrack | TRBrack | TComma | TColon | TNull | TNum int | TStr string

datatype lex_mode = Plain | InStr string | InEsc string | InNum bool nat

definition is_digit :: "char \<Rightarrow> bool" where
  "is_digit c = (CHR ''0'' \<le> c \<and> c \<le> CHR ''9'')"

definition digit_val :: "char \<Rightarrow> nat" where
  "digit_val c = of_char c - of_char (CHR ''0'')"

definition punct :: "char \<Rightarrow> token option" where
  "punct c =
     (if c = CHR ''{'' then Some TLBrace else if c = CHR ''}'' then Some TRBrace
      else if c = CHR ''['' then Some TLBrack else if c = CHR '']'' then Some TRBrack
      else if c = CHR '','' then Some TComma else if c = CHR '':'' then Some TColon
      else None)"

definition num_token :: "bool \<Rightarrow> nat \<Rightarrow> token" where
  "num_token neg n = TNum (if neg then - int n else int n)"

fun lexer :: "lex_mode \<Rightarrow> string \<Rightarrow> token list option" where
  "lexer Plain [] = Some []"
| "lexer Plain (c # cs) =
     (if c = CHR 0x22 then lexer (InStr []) cs
      else if c = CHR ''-'' then
        (case cs of [] \<Rightarrow> None
         | d # ds \<Rightarrow> if is_digit d then lexer (InNum True (digit_val d)) ds else None)
      else if is_digit c then lexer (InNum False (digit_val c)) cs
      else if c = CHR ''n'' then
        (case cs of
           u # l1 # l2 # rest \<Rightarrow>
             if u = CHR ''u'' \<and> l1 = CHR ''l'' \<and> l2 = CHR ''l''
             then map_option ((#) TNull) (lexer Plain rest) else None
         | _ \<Rightarrow> None)
      else (case punct c of None \<Rightarrow> None | Some t \<Rightarrow> map_option ((#) t) (lexer Plain cs)))"
| "lexer (InStr acc) [] = None"
| "lexer (InStr acc) (c # cs) =
     (if c = CHR 0x22 then map_option ((#) (TStr (rev acc))) (lexer Plain cs)
      else if c = CHR 0x5C then lexer (InEsc acc) cs
      else lexer (InStr (c # acc)) cs)"
| "lexer (InEsc acc) [] = None"
| "lexer (InEsc acc) (c # cs) =
     (if c = CHR 0x22 \<or> c = CHR 0x5C then lexer (InStr (c # acc)) cs else None)"
| "lexer (InNum neg n) [] = Some [num_token neg n]"
| "lexer (InNum neg n) (c # cs) =
     (if is_digit c then lexer (InNum neg (10 * n + digit_val c)) cs
      else (case punct c of
              None \<Rightarrow> None
            | Some t \<Rightarrow> map_option (\<lambda>ts. num_token neg n # t # ts) (lexer Plain cs)))"

datatype parse_state =
    PStart
  | PArray "json_object list"
  | PNextObject "json_object list"
  | PObject "json_object list" json_object
  | PNextKey "json_object list" json_object
  | PKey "json_object list" json_object string
  | PValue "json_object list" json_object string
  | PAfterValue "json_object list" json_object
  | PAfterObject "json_object list"
  | PDone "json_object list"
  | PFail

definition parse_step :: "parse_state \<Rightarrow> token \<Rightarrow> parse_state" where
  "parse_step st t =
     (case st of
        PStart \<Rightarrow> (case t of TLBrack \<Rightarrow> PArray [] | _ \<Rightarrow> PFail)
      | PArray objs \<Rightarrow>
          (case t of TRBrack \<Rightarrow> PDone objs | TLBrace \<Rightarrow> PObject objs [] | _ \<Rightarrow> PFail)
      | PNextObject objs \<Rightarrow> (case t of TLBrace \<Rightarrow> PObject objs [] | _ \<Rightarrow> PFail)
      | PObject objs mems \<Rightarrow>
          (case t of TRBrace \<Rightarrow> PAfterObject (objs @ [mems])
           | TStr k \<Rightarrow> PKey objs mems k | _ \<Rightarrow> PFail)
      | PNextKey objs mems \<Rightarrow> (case t of TStr k \<Rightarrow> PKey objs mems k | _ \<Rightarrow> PFail)
      | PKey objs mems k \<Rightarrow> (case t of TColon \<Rightarrow> PValue objs mems k | _ \<Rightarrow> PFail)
      | PValue objs mems k \<Rightarrow>
          (case t of TNull \<Rightarrow> PAfterValue objs (mems @ [(k, JNull)])
           | TNum i \<Rightarrow> PAfterValue objs (mems @ [(k, JNum i)])
           | TStr s \<Rightarrow> PAfterValue objs (mems @ [(k, JStr s)])
           | _ \<Rightarrow> PFail)
      | PAfterValue objs mems \<Rightarrow>
          (case t of TComma \<Rightarrow> PNextKey objs mems
           | TRBrace \<Rightarrow> PAfterObject (objs @ [mems]) | _ \<Rightarrow> PFail)
      | PAfterObject objs \<Rightarrow>
          (case t of TComma \<Rightarrow> PNextObject objs | TRBrack \<Rightarrow> PDone objs | _ \<Rightarrow> PFail)
      | PDone objs \<Rightarrow> PFail
      | PFail \<Rightarrow> PFail)"

definition JSON_parse :: "string \<Rightarrow> json_object list option" where
  "JSON_parse text =
     (case lexer Plain text of
        None \<Rightarrow> None
      | Some ts \<Rightarrow> (case foldl parse_step PStart ts of PDone objs \<Rightarrow> Some objs | _ \<Rightarrow> None))"

text \<open>
  The rows of \<open>product_templates pt LEFT JOIN template_parts tp LEFT JOIN
  parts p\<close> for one template: a template without parts gives one row, whose
  \<open>tp\<close> and \<open>p\<close> columns are all NULL.
\<close>

definition left_join_parts ::
  "database \<Rightarrow> product_template \<Rightarrow> (template_part option \<times> part option) list" where
  "left_join_parts db pt =
     (case filter (\<lambda>tp. tp_template_id tp = template_id pt) (template_parts db) of
        [] \<Rightarrow> [(None, None)]
      | tps \<Rightarrow> concat (map (\<lambda>tp.
          (case filter (\<lambda>p. part_id p = tp_part_id tp) (parts db) of
             [] \<Rightarrow> [(Some tp, None)]
           | ps \<Rightarrow> map (\<lambda>p. (Some tp, Some p)) ps)) tps))"

definition sql_int :: "int option \<Rightarrow> json_value" where
  "sql_int v = (case v of None \<Rightarrow> JNull | Some i \<Rightarrow> JNum i)"

definition sql_text :: "string option \<Rightarrow> json_value" where
  "sql_text v = (case v of None \<Rightarrow> JNull | Some s \<Rightarrow> JStr s)"

definition part_json_object :: "template_part option \<times> part option \<Rightarrow> string option" where
  "part_json_object row =
     Some (json_object_text
       [(''part_id'', sql_int (map_option part_id (snd row))),
        (''part_code'', sql_text (Option.bind (snd row) part_code)),
        (''part_name'', sql_text (map_option part_name (snd row))),
        (''quantity'', sql_int (map_option quantity (fst row)))])"

record template_listing =
  l_template :: product_template
  part_count :: nat
  parts_json :: "string option"
  l_parts :: "json_object list"

text \<open>
  One element of the \<open>templates.map\<close> in \<open>getAll\<close>: the grouped row and its
  \<open>parts\<close>, \<open>parts_json ? JSON.parse(`[${parts_json}]`) : []\<close>. A string is
  truthy unless it is empty; \<open>None\<close> in the result is the SyntaxError of
  \<open>JSON.parse\<close>.
\<close>

definition template_row :: "database \<Rightarrow> product_template \<Rightarrow> template_listing option" where
  "template_row db pt =
     (let rows = left_join_parts db pt;
          pj = GROUP_CONCAT (map part_json_object rows);
          parsed = (if falsy pj then Some [] else JSON_parse (''['' @ the pj @ '']''))
      in map_option (\<lambda>ps. \<lparr>l_template = pt,
                             part_count = length (filter (\<lambda>r. fst r \<noteq> None) rows),
                             parts_json = pj, l_parts = ps\<rparr>) parsed)"

fun all_some :: "'a option list \<Rightarrow> 'a list option" where
  "all_some [] = Some []"
| "all_some (None # xs) = None"
| "all_some (Some x # xs) = map_option ((#) x) (all_some xs)"

definition ProductTemplate_getAll :: "database \<Rightarrow> bool \<Rightarrow> template_listing list option" where
  "ProductTemplate_getAll db includeInactive =
     all_some (map (template_row db)
       (sort_key template_name
          (filter (\<lambda>pt. includeInactive \<or> template_is_active pt = 1) (product_templates db))))"

section \<open>Admin routes (src/routes/admin.js)\<close>

text \<open>
  A handler returns the HTTP status code it replies with and the database it
  leaves; an exception it does not catch (or rethrows) is \<open>Inl\<close>. The
  handlers tell the errors apart by their message.
\<close>

definition message :: "db_error \<Rightarrow> string" where
  "message e =
     (case e of
        UNIQUE_constraint_failed c \<Rightarrow> ''UNIQUE constraint failed: '' @ c
      | NOT_NULL_constraint_failed c \<Rightarrow> ''NOT NULL constraint failed: '' @ c
      | CHECK_constraint_failed c \<Rightarrow> ''CHECK constraint failed: '' @ c
      | FOREIGN_KEY_constraint_failed \<Rightarrow> ''FOREIGN KEY constraint failed''
      | Error m \<Rightarrow> m)"

fun str_includes :: "string \<Rightarrow> string \<Rightarrow> bool" where
  "str_includes [] sub = (sub = [])"
| "str_includes (c # cs) sub = (take (length sub) (c # cs) = sub \<or> str_includes cs sub)"

definition POST_admin_api_colors ::
  "database \<Rightarrow> timestamp \<Rightarrow> colorData \<Rightarrow> db_error + (nat \<times> database)" where
  "POST_admin_api_colors db now colorData =
     (if falsy (d_color_name colorData) \<or> falsy (d_hex_code colorData) then Inr (400, db)
      else (case Color_create db now colorData of
              Inr (db', color) \<Rightarrow> Inr (201, db')
            | Inl error \<Rightarrow>
                if str_includes (message error) ''UNIQUE constraint failed'' then Inr (409, db)
                else Inl error))"

definition POST_admin_api_templates ::
  "database \<Rightarrow> timestamp \<Rightarrow> templateData \<Rightarrow> db_error + (nat \<times> database)" where
  "POST_admin_api_templates db now templateData =
     (if falsy (d_template_name templateData) then Inr (400, db)
      else if (case d_num_colors templateData of None \<Rightarrow> True
               | Some n \<Rightarrow> n = 0 \<or> n < 1 \<or> n > 4) then Inr (400, db)
      else (case ProductTemplate_create db now templateData of
              Inr (db', template) \<Rightarrow> Inr (201, db')
            | Inl error \<Rightarrow>
                if str_includes (message error) ''UNIQUE constraint failed'' then Inr (409, db)
                else if str_includes (message error) ''num_colors'' then Inr (400, db)
                else Inl error))"

record addPartBody =
  b_part_id :: "int option"
  b_quantity :: "int option"

definition POST_admin_api_templates_parts ::
  "database \<Rightarrow> int \<Rightarrow> addPartBody \<Rightarrow> db_error + (nat \<times> database)" where
  "POST_admin_api_templates_parts db templateId body =
     (case b_part_id body of
        None \<Rightarrow> Inr (400, db)
      | Some partId \<Rightarrow>
          if partId = 0 then Inr (400, db)
          else (case ProductTemplate_addPart db templateId partId
                       (quantity_or_1 (b_quantity body)) of
                  Inl error \<Rightarrow> Inl error
                | Inr (db', success) \<Rightarrow> if \<not> success then Inr (404, db') else Inr (200, db')))"

section \<open>Orders, products, items and the audit log (src/database/schema.sql)\<close>

text \<open>
  The repository has the tables of the workflow and no model file for them.
  The statements below are what the schema makes of an INSERT or UPDATE on
  these tables: NOT NULL, then CHECK, then UNIQUE and the foreign keys; a
  statement that fails writes nothing. \<open>None\<close> in a column with a DEFAULT
  means the statement leaves the column out.
\<close>

definition platform_values :: "string list" where
  "platform_values = [''Shopify'', ''Etsy'', ''Custom Order'']"

definition status_values :: "string list" where
  "status_values =
     [''In Queue'', ''In Printfarm'', ''Printed'', ''Assembled'', ''Packed'', ''Shipped'']"

record orderData =
  o_order_number :: "string option"
  o_customer_name :: "string option"
  o_platform :: "string option"
  o_order_notes :: "string option"
  o_ship_by_date :: "string option"
  o_is_express :: "int option"

definition order_constraints ::
  "order list \<Rightarrow> orderData \<Rightarrow> db_error option" where
  "order_constraints others d =
     (if o_order_number d = None then Some (NOT_NULL_constraint_failed ''orders.order_number'')
      else if o_customer_name d = None
        then Some (NOT_NULL_constraint_failed ''orders.customer_name'')
      else if o_platform d = None then Some (NOT_NULL_constraint_failed ''orders.platform'')
      else if o_ship_by_date d = None
        then Some (NOT_NULL_constraint_failed ''orders.ship_by_date'')
      else if the (o_platform d) \<notin> set platform_values
        then Some (CHECK_constraint_failed ''platform IN ('Shopify', 'Etsy', 'Custom Order')'')
      else if the (o_order_number d) \<in> set (map order_number others)
        then Some (UNIQUE_constraint_failed ''orders.order_number'')
      else None)"

definition INSERT_order :: "database \<Rightarrow> timestamp \<Rightarrow> orderData \<Rightarrow> db_error + database" where
  "INSERT_order db now d =
     (case order_constraints (orders db) d of
        Some e \<Rightarrow> Inl e
      | None \<Rightarrow>
          let rowid = next_rowid (orders_seq db) (map order_id (orders db))
          in Inr (db\<lparr>orders := orders db @
                    [\<lparr>order_id = rowid, order_number = the (o_order_number d),
                      customer_name = the (o_customer_name d),
                      platform = the (o_platform d), order_notes = o_order_notes d,
                      ship_by_date = the (o_ship_by_date d),
                      is_express = (case o_is_express d of None \<Rightarrow> 0 | Some b \<Rightarrow> b),
                      is_archived = 0, order_created_at = now, order_updated_at = now,
                      shipped_at = None\<rparr>],
                  orders_seq := rowid\<rparr>))"

text \<open>
  UPDATE orders SET ... WHERE order_id = ?; the trigger update_orders_timestamp
  stamps the row.
\<close>

definition UPDATE_order ::
  "database \<Rightarrow> timestamp \<Rightarrow> int \<Rightarrow> orderData \<Rightarrow> db_error + database" where
  "UPDATE_order db now orderId d =
     (if \<not> (\<exists>r \<in> set (orders db). order_id r = orderId) then Inr db
      else (case order_constraints (filter (\<lambda>r. order_id r \<noteq> orderId) (orders db)) d of
              Some e \<Rightarrow> Inl e
            | None \<Rightarrow>
                Inr (db\<lparr>orders := map (\<lambda>r. if order_id r = orderId
                       then r\<lparr>order_number := the (o_order_number d),
                              customer_name := the (o_customer_name d),
                              platform := the (o_platform d), order_notes := o_order_notes d,
                              ship_by_date := the (o_ship_by_date d),
                              is_express := (case o_is_express d of None \<Rightarrow> is_express r
                                             | Some b \<Rightarrow> b),
                              order_updated_at := now\<rparr>
                       else r) (orders db)\<rparr>)))"

definition INSERT_product ::
  "database \<Rightarrow> timestamp \<Rightarrow> int \<Rightarrow> string option \<Rightarrow> db_error + database" where
  "INSERT_product db now orderId name =
     (case name of
        None \<Rightarrow> Inl (NOT_NULL_constraint_failed ''products.product_name'')
      | Some n \<Rightarrow>
          if \<not> (\<exists>r \<in> set (orders db). order_id r = orderId)
          then Inl FOREIGN_KEY_constraint_failed
          else
            let rowid = next_rowid (products_seq db) (map product_id (products db))
            in Inr (db\<lparr>products := products db @
                      [\<lparr>product_id = rowid, p_order_id = orderId, product_name = n,
                        product_created_at = now, product_updated_at = now\<rparr>],
                    products_seq := rowid\<rparr>))"

text \<open>
  INSERT INTO items: \<open>status\<close> left out takes the DEFAULT 'In Queue'; the
  result carries the new rowid.
\<close>

definition INSERT_item ::
  "database \<Rightarrow> timestamp \<Rightarrow> int \<Rightarrow> string option \<Rightarrow> string option \<Rightarrow>
     db_error + (database \<times> int)" where
  "INSERT_item db now productId name st =
     (case name of
        None \<Rightarrow> Inl (NOT_NULL_constraint_failed ''items.item_name'')
      | Some n \<Rightarrow>
          let s = (case st of None \<Rightarrow> ''In Queue'' | Some t \<Rightarrow> t)
          in if s \<notin> set status_values then Inl (CHECK_constraint_failed ''status IN (...)'')
             else if \<not> (\<exists>r \<in> set (products db). product_id r = productId)
             then Inl FOREIGN_KEY_constraint_failed
             else
               let rowid = next_rowid (items_seq db) (map item_id (items db))
               in Inr (db\<lparr>items := items db @
                         [\<lparr>item_id = rowid, i_product_id = productId, item_name = n,
                           status = s, item_created_at = now, item_updated_at = now\<rparr>],
                       items_seq := rowid\<rparr>, rowid))"

text \<open>
  UPDATE items SET status = ? WHERE item_id = ?; the trigger
  update_items_timestamp stamps the row.
\<close>

definition UPDATE_item_status ::
  "database \<Rightarrow> timestamp \<Rightarrow> int \<Rightarrow> string option \<Rightarrow> db_error + database" where
  "UPDATE_item_status db now itemId st =
     (if \<not> (\<exists>r \<in> set (items db). item_id r = itemId) then Inr db
      else (case st of
              None \<Rightarrow> Inl (NOT_NULL_constraint_failed ''items.status'')
            | Some s \<Rightarrow>
                if s \<notin> set status_values then Inl (CHECK_constraint_failed ''status IN (...)'')
                else Inr (db\<lparr>items := map (\<lambda>r. if item_id r = itemId
                                 then r\<lparr>status := s, item_updated_at := now\<rparr> else r)
                               (items db)\<rparr>)))"

definition INSERT_status_history ::
  "database \<Rightarrow> timestamp \<Rightarrow> int \<Rightarrow> string option \<Rightarrow> string option \<Rightarrow> string option \<Rightarrow>
     db_error + database" where
  "INSERT_status_history db now itemId old new why =
     (case new of
        None \<Rightarrow> Inl (NOT_NULL_constraint_failed ''status_history.new_status'')
      | Some n \<Rightarrow>
          if \<not> (\<exists>r \<in> set (items db). item_id r = itemId)
          then Inl FOREIGN_KEY_constraint_failed
          else
            let rowid = next_rowid (status_history_seq db)
                          (map history_id (status_history db))
            in Inr (db\<lparr>status_history := status_history db @
                      [\<lparr>history_id = rowid, h_item_id = itemId, old_status = old,
                        new_status = n, changed_at = now, reason = why\<rparr>],
                    status_history_seq := rowid\<rparr>))"

section \<open>The workflow engine and order entry, modelled from the spec\<close>

text \<open>
  Modelled from the spec: the item states of section 4.1, which the
  repository has only as the texts of the CHECK constraint on
  \<open>items.status\<close>. \<open>status_text\<close> is the text the schema stores for a
  state, \<open>successor\<close> the next state of the fixed order, \<open>rank\<close> the
  position in it.
\<close>

datatype status_enum = InQueue | InPrintfarm | Printed | Assembled | Packed | Shipped

fun status_text :: "status_enum \<Rightarrow> string" where
  "status_text InQueue = ''In Queue''"
| "status_text InPrintfarm = ''In Printfarm''"
| "status_text Printed = ''Printed''"
| "status_text Assembled = ''Assembled''"
| "status_text Packed = ''Packed''"
| "status_text Shipped = ''Shipped''"

definition status_of_text :: "string \<Rightarrow> status_enum option" where
  "status_of_text s =
     find (\<lambda>e. status_text e = s) [InQueue, InPrintfarm, Printed, Assembled, Packed, Shipped]"

fun successor :: "status_enum \<Rightarrow> status_enum option" where
  "successor InQueue = Some InPrintfarm"
| "successor InPrintfarm = Some Printed"
| "successor Printed = Some Assembled"
| "successor Assembled = Some Packed"
| "successor Packed = Some Shipped"
| "successor Shipped = None"

fun rank :: "status_enum \<Rightarrow> nat" where
  "rank InQueue = 0"
| "rank InPrintfarm = 1"
| "rank Printed = 2"
| "rank Assembled = 3"
| "rank Packed = 4"
| "rank Shipped = 5"

text \<open>
  Modelled from the spec: the platforms of section 3, which the repository
  has only as the texts of the CHECK constraint on \<open>orders.platform\<close>.
\<close>

datatype platform_enum = Shopify | Etsy | CustomOrder

fun platform_text :: "platform_enum \<Rightarrow> string" where
  "platform_text Shopify = ''Shopify''"
| "platform_text Etsy = ''Etsy''"
| "platform_text CustomOrder = ''Custom Order''"

text \<open>Modelled from the spec: the error kinds of section 7.\<close>

datatype engine_error =
    InvalidTransition | NoOpTransition | UnknownPart | InactiveReference
  | NotReady | NotFound | DuplicateKey

text \<open>
  Modelled from the spec: \<open>AdvanceStatus(itemId, targetStatus, reason?)\<close> of
  section 4.1, of which the repository has the tables only. It succeeds only
  if \<open>targetStatus\<close> is the immediate successor of the item's current
  status and fails with \<open>InvalidTransition\<close> otherwise; on success it
  updates the item's status and \<open>updated_at\<close> and appends a StatusHistory row
  with the supplied reason (default "status advanced"). An unknown item is
  \<open>NotFound\<close> (section 7).
\<close>

definition AdvanceStatus ::
  "database \<Rightarrow> timestamp \<Rightarrow> int \<Rightarrow> status_enum \<Rightarrow> string option \<Rightarrow>
     engine_error + database" where
  "AdvanceStatus db now itemId targetStatus why =
     (case find (\<lambda>i. item_id i = itemId) (items db) of
        None \<Rightarrow> Inl NotFound
      | Some it \<Rightarrow>
          if Option.bind (status_of_text (status it)) successor = Some targetStatus
          then
            let rowid = next_rowid (status_history_seq db)
                          (map history_id (status_history db))
            in Inr (db\<lparr>items := map (\<lambda>r. if item_id r = itemId
                             then r\<lparr>status := status_text targetStatus,
                                    item_updated_at := now\<rparr> else r) (items db),
                       status_history := status_history db @
                         [\<lparr>history_id = rowid, h_item_id = itemId,
                           old_status = Some (status it),
                           new_status = status_text targetStatus, changed_at = now,
                           reason = Some (case why of None \<Rightarrow> ''status advanced''
                                          | Some r \<Rightarrow> r)\<rparr>],
                       status_history_seq := rowid\<rparr>)
          else Inl InvalidTransition)"

text \<open>
  A sequence of \<open>AdvanceStatus\<close> calls, each \<open>(now, itemId, targetStatus,
  reason)\<close>: a call that fails leaves the store as it was.
\<close>

type_synonym advance_call = "timestamp \<times> int \<times> status_enum \<times> string option"

fun run_advances :: "database \<Rightarrow> advance_call list \<Rightarrow> database" where
  "run_advances db [] = db"
| "run_advances db ((now, itemId, targetStatus, why) # calls) =
     run_advances
       (case AdvanceStatus db now itemId targetStatus why of Inr db' \<Rightarrow> db' | Inl e \<Rightarrow> db)
       calls"

text \<open>
  A strictly forward path: the history rows, in the order they were written,
  each start at the status the row before reached (the first at \<open>cur\<close>) and
  move to the next rank of the fixed order.
\<close>

fun forward_path :: "string \<Rightarrow> status_history_row list \<Rightarrow> bool" where
  "forward_path cur [] = True"
| "forward_path cur (r # rs) =
     (old_status r = Some cur
      \<and> (case (status_of_text cur, status_of_text (new_status r)) of
           (Some a, Some b) \<Rightarrow> rank b = Suc (rank a)
         | _ \<Rightarrow> False)
      \<and> forward_path (new_status r) rs)"

text \<open>
  Modelled from the spec: item creation in order entry (section 6), of which
  the repository has the tables only. A new item is inserted with the
  schema's default status and one StatusHistory row (old_status null,
  new_status InQueue, reason "created") is written with it, in one
  transaction.
\<close>

definition CreateItem ::
  "database \<Rightarrow> timestamp \<Rightarrow> int \<Rightarrow> string option \<Rightarrow> db_error + (database \<times> int)" where
  "CreateItem db now productId name =
     (case INSERT_item db now productId name None of
        Inl e \<Rightarrow> Inl e
      | Inr (db1, itemId) \<Rightarrow>
          (case INSERT_status_history db1 now itemId None (Some (status_text InQueue))
                  (Some ''created'') of
             Inl e \<Rightarrow> Inl e
           | Inr db2 \<Rightarrow> Inr (db2, itemId)))"

text \<open>
  The writes that reach the workflow tables: the statements of the schema and
  the two engine operations. A state is reachable when successful writes lead
  to it from the empty database. (A DELETE only removes rows, so it cannot
  bring a value into a table; it is left out.)
\<close>

datatype statement =
    Insert_order orderData
  | Update_order int orderData
  | Insert_product int "string option"
  | Insert_item int "string option" "string option"
  | Update_item_status int "string option"
  | Insert_status_history int "string option" "string option" "string option"
  | Create_item int "string option"
  | Advance_status int status_enum "string option"

definition committed :: "'e + database \<Rightarrow> database option" where
  "committed r = (case r of Inl e \<Rightarrow> None | Inr db \<Rightarrow> Some db)"

fun exec :: "database \<Rightarrow> timestamp \<Rightarrow> statement \<Rightarrow> database option" where
  "exec db now (Insert_order d) = committed (INSERT_order db now d)"
| "exec db now (Update_order orderId d) = committed (UPDATE_order db now orderId d)"
| "exec db now (Insert_product orderId name) = committed (INSERT_product db now orderId name)"
| "exec db now (Insert_item productId name st) =
     committed (map_sum id fst (INSERT_item db now productId name st))"
| "exec db now (Update_item_status itemId st) = committed (UPDATE_item_status db now itemId st)"
| "exec db now (Insert_status_history itemId old new why) =
     committed (INSERT_status_history db now itemId old new why)"
| "exec db now (Create_item productId name) =
     committed (map_sum id fst (CreateItem db now productId name))"
| "exec db now (Advance_status itemId targetStatus why) =
     committed (AdvanceStatus db now itemId targetStatus why)"

inductive reachable :: "database \<Rightarrow> bool" where
  initial: "reachable empty_database"
| step: "reachable db \<Longrightarrow> exec db now st = Some db' \<Longrightarrow> reachable db'"

text \<open>
  Modelled from the spec: order-number generation (section 4.2), for which
  the repository has no code. The next number is one more than the numeric
  maximum of the existing order numbers that parse as integers (1 when there
  is none), zero-padded to 3 digits. A number parses when it is a non-empty
  run of decimal digits.
\<close>

definition parse_nat :: "string \<Rightarrow> nat option" where
  "parse_nat s =
     (if s \<noteq> [] \<and> list_all is_digit s
      then Some (foldl (\<lambda>n c. 10 * n + digit_val c) 0 s) else None)"

definition next_number :: "string list \<Rightarrow> nat" where
  "next_number existing =
     (case List.map_filter parse_nat existing of [] \<Rightarrow> 1 | n # ns \<Rightarrow> fold max ns n + 1)"

definition zero_pad :: "nat \<Rightarrow> string \<Rightarrow> string" where
  "zero_pad width s = replicate (width - length s) (CHR ''0'') @ s"

definition next_order_number :: "string list \<Rightarrow> string" where
  "next_order_number existing = zero_pad 3 (string_of_nat (next_number existing))"

text \<open>
  Modelled from the spec: creating an order whose caller may omit the order
  number; the store then takes the generated one. The INSERT is the schema's.
\<close>

definition CreateOrder :: "database \<Rightarrow> timestamp \<Rightarrow> orderData \<Rightarrow> db_error + database" where
  "CreateOrder db now d =
     INSERT_order db now
       (case o_order_number d of
          None \<Rightarrow> d\<lparr>o_order_number := Some (next_order_number (map order_number (orders db)))\<rparr>
        | Some n \<Rightarrow> d)"

section \<open>A small database for the concrete checks\<close>

definition red :: color where
  "red = \<lparr>color_id = 1, color_name = ''Red'', hex_code = ''#DE4343'', pantone_code = None,
           material_type = Some ''PLA'', supplier = Some ''Bambu Lab'', category = Some ''Matte'',
           cost_per_gram = Some 0, stock_grams = Some 0, color_is_active = 1,
           color_created_at = ''2025-10-20 10:00:00'',
           color_updated_at = ''2025-10-20 10:00:00''\<rparr>"

definition black :: color where
  "black = red\<lparr>color_id := 2, color_name := ''Black'', hex_code := ''#000000''\<rparr>"

definition gold :: color where
  "gold = red\<lparr>color_id := 3, color_name := ''Gold'', hex_code := ''#F4A925'',
              color_is_active := 0\<rparr>"

definition token :: part where
  "token = \<lparr>part_id = 1, part_code = Some ''TOK0025'', part_name = ''25mm Token'',
             part_description = Some ''Small token (25mm)'', part_is_active = 1,
             part_created_at = ''2025-10-20 10:00:00'',
             part_updated_at = ''2025-10-20 10:00:00''\<rparr>"

definition lid :: part where
  "lid = \<lparr>part_id = 2, part_code = Some ''LID40001'', part_name = ''4-Lid Border'',
           part_description = None, part_is_active = 0,
           part_created_at = ''2025-10-20 10:00:00'',
           part_updated_at = ''2025-10-20 10:00:00''\<rparr>"

definition token_box :: product_template where
  "token_box = \<lparr>template_id = 1, template_name = ''Token Box'', template_description = None,
                 num_colors = 2, print_time_minutes = 90, print_cost = 3,
                 template_is_active = 1, template_created_at = ''2025-10-20 10:00:00'',
                 template_updated_at = ''2025-10-20 10:00:00''\<rparr>"

definition example_db :: database where
  "example_db = empty_database
     \<lparr>colors := [red, black, gold], colors_seq := 3,
      parts := [token, lid], parts_seq := 2,
      product_templates := [token_box], product_templates_seq := 1\<rparr>"

definition red_again :: colorData where
  "red_again = \<lparr>d_color_name = Some ''Red'', d_hex_code = Some ''#FF0000'',
                 d_pantone_code = None, d_material_type = None, d_supplier = None,
                 d_category = None, d_cost_per_gram = None, d_stock_grams = None\<rparr>"

definition silver :: colorData where
  "silver = red_again\<lparr>d_color_name := Some ''Silver'', d_hex_code := Some ''#C8C8C8''\<rparr>"

definition marker_set :: templateData where
  "marker_set = \<lparr>d_template_name = Some ''Marker Set'', d_template_description = None,
                  d_num_colors = Some 4, d_print_time_minutes = Some 120, d_print_cost = None,
                  d_parts = [\<lparr>pd_part_id = 1, pd_quantity = Some 16\<rparr>,
                             \<lparr>pd_part_id = 2, pd_quantity = None\<rparr>]\<rparr>"

definition ghost_set :: templateData where
  "ghost_set = marker_set\<lparr>d_parts := [\<lparr>pd_part_id = 99, pd_quantity = Some 1\<rparr>]\<rparr>"

definition first_order :: orderData where
  "first_order = \<lparr>o_order_number = Some ''001'', o_customer_name = Some ''Ada'',
                   o_platform = Some ''Etsy'', o_order_notes = None,
                   o_ship_by_date = Some ''2025-11-01'', o_is_express = None\<rparr>"

definition shop_db :: database where
  "shop_db = empty_database
     \<lparr>orders := [\<lparr>order_id = 1, order_number = ''001'', customer_name = ''Ada'',
                  platform = ''Etsy'', order_notes = None, ship_by_date = ''2025-11-01'',
                  is_express = 0, is_archived = 0, order_created_at = ''t1'',
                  order_updated_at = ''t1'', shipped_at = None\<rparr>],
      orders_seq := 1,
      products := [\<lparr>product_id = 1, p_order_id = 1, product_name = ''Marker Set'',
                    product_created_at = ''t2'', product_updated_at = ''t2''\<rparr>],
      products_seq := 1,
      items := [\<lparr>item_id = 1, i_product_id = 1, item_name = ''Plate A'',
                 status = ''In Queue'', item_created_at = ''t3'', item_updated_at = ''t3''\<rparr>],
      items_seq := 1,
      status_history := [\<lparr>history_id = 1, h_item_id = 1, old_status = None,
                          new_status = ''In Queue'', changed_at = ''t3'',
                          reason = Some ''created''\<rparr>],
      status_history_seq := 1\<rparr>"

definition unit_token_set :: templateData where
  "unit_token_set = marker_set\<lparr>d_parts := [\<lparr>pd_part_id = 1, pd_quantity = Some 0\<rparr>]\<rparr>"

section \<open>Auxiliary facts\<close>

lemma find_map_upd:
  assumes "\<And>x. P (f x) = P x"
  shows "find P (map f xs) = map_option f (find P xs)"
  using assms by (induction xs) auto

lemma fold_max_ge: "(a::int) \<le> fold max xs a"
  by (induction xs arbitrary: a) (auto intro: order_trans [OF max.cobounded2])

lemma fold_max_mem: "x \<in> set xs \<Longrightarrow> (x::int) \<le> fold max xs a"
proof (induction xs arbitrary: a)
  case Nil
  then show ?case by simp
next
  case (Cons y ys)
  show ?case
  proof (cases "x = y")
    case True
    have "y \<le> max y a" by simp
    also have "\<dots> \<le> fold max ys (max y a)" by (rule fold_max_ge)
    finally show ?thesis using True by simp
  next
    case False
    with Cons show ?thesis by simp
  qed
qed

lemma next_rowid_fresh: "next_rowid seq ids \<notin> set ids"
proof
  assume "next_rowid seq ids \<in> set ids"
  then have "next_rowid seq ids \<le> fold max ids (max seq 0)" by (rule fold_max_mem)
  then show False by (simp add: next_rowid_def)
qed

lemma find_append_fresh:
  "\<forall>x \<in> set xs. \<not> P x \<Longrightarrow> P y \<Longrightarrow> find P (xs @ [y]) = Some y"
  by (induction xs) auto

section \<open>Listings of colors and parts\<close>

lemma Color_getAll_mset:
  "mset (Color_getAll db False) = filter_mset (\<lambda>c. color_is_active c = 1) (mset (colors db))"
  "mset (Color_getAll db True) = mset (colors db)"
  by (simp_all add: Color_getAll_def)

lemma Color_getAll_sorted: "sorted (map color_name (Color_getAll db inc))"
  by (simp add: Color_getAll_def)

lemma Color_getAll_filter:
  "Color_getAll db False = filter (\<lambda>c. color_is_active c = 1) (Color_getAll db True)"
  by (simp add: Color_getAll_def filter_sort)

lemma Color_deactivate_listing:
  assumes "c \<in> set (colors db)" "color_id c = cid"
  shows "c\<lparr>color_is_active := 0\<rparr> \<in> set (Color_getAll (fst (Color_deactivate db cid)) True)"
    and "\<forall>c' \<in> set (Color_getAll (fst (Color_deactivate db cid)) False). color_id c' \<noteq> cid"
  using assms by (auto simp: Color_getAll_def Color_deactivate_def)

lemma Part_getAll_mset:
  "mset (Part_getAll db False) = filter_mset (\<lambda>p. part_is_active p = 1) (mset (parts db))"
  "mset (Part_getAll db True) = mset (parts db)"
  by (simp_all add: Part_getAll_def)

lemma Part_getAll_sorted: "sorted (map part_name (Part_getAll db inc))"
  by (simp add: Part_getAll_def)

lemma Part_getAll_filter:
  "Part_getAll db False = filter (\<lambda>p. part_is_active p = 1) (Part_getAll db True)"
  by (simp add: Part_getAll_def filter_sort)

lemma Part_deactivate_listing:
  assumes "p \<in> set (parts db)" "part_id p = pid"
  shows "p\<lparr>part_is_active := 0\<rparr> \<in> set (Part_getAll (fst (Part_deactivate db pid)) True)"
    and "\<forall>p' \<in> set (Part_getAll (fst (Part_deactivate db pid)) False). part_id p' \<noteq> pid"
  using assms by (auto simp: Part_getAll_def Part_deactivate_def)

text \<open>
  Claim C10. \<open>Color.getAll\<close> and \<open>Part.getAll\<close> with \<open>includeInactive =
  false\<close> return exactly the records whose \<open>is_active\<close> is 1, and with
  \<open>includeInactive = true\<close> every record, both sorted by name in ascending
  order (the default listing is the full one with the inactive records taken
  out). A record that is deactivated is in no default listing afterwards and
  is, with \<open>is_active = 0\<close>, in the full one.
\<close>

theorem getAll_listing:
  "mset (Color_getAll db False) = filter_mset (\<lambda>c. color_is_active c = 1) (mset (colors db))
   \<and> mset (Color_getAll db True) = mset (colors db)
   \<and> sorted (map color_name (Color_getAll db includeInactive))
   \<and> Color_getAll db False = filter (\<lambda>c. color_is_active c = 1) (Color_getAll db True)
   \<and> (\<forall>c \<in> set (colors db).
        c\<lparr>color_is_active := 0\<rparr>
          \<in> set (Color_getAll (fst (Color_deactivate db (color_id c))) True)
        \<and> (\<forall>c' \<in> set (Color_getAll (fst (Color_deactivate db (color_id c))) False).
              color_id c' \<noteq> color_id c))
   \<and> mset (Part_getAll db False) = filter_mset (\<lambda>p. part_is_active p = 1) (mset (parts db))
   \<and> mset (Part_getAll db True) = mset (parts db)
   \<and> sorted (map part_name (Part_getAll db includeInactive))
   \<and> Part_getAll db False = filter (\<lambda>p. part_is_active p = 1) (Part_getAll db True)
   \<and> (\<forall>p \<in> set (parts db).
        p\<lparr>part_is_active := 0\<rparr>
          \<in> set (Part_getAll (fst (Part_deactivate db (part_id p))) True)
        \<and> (\<forall>p' \<in> set (Part_getAll (fst (Part_deactivate db (part_id p))) False).
              part_id p' \<noteq> part_id p))"
  using Color_getAll_mset [of db] Color_getAll_sorted [of db includeInactive]
    Color_getAll_filter [of db] Color_deactivate_listing [of _ db]
    Part_getAll_mset [of db] Part_getAll_sorted [of db includeInactive]
    Part_getAll_filter [of db] Part_deactivate_listing [of _ db]
  by blast

theorem getAll_listing_witness:
  "red \<in> set (colors example_db)
   \<and> red\<lparr>color_is_active := 0\<rparr> \<in> set (Color_getAll (fst (Color_deactivate example_db 1)) True)
   \<and> token \<in> set (parts example_db)
   \<and> token\<lparr>part_is_active := 0\<rparr> \<in> set (Part_getAll (fst (Part_deactivate example_db 1)) True)"
proof -
  have c: "red \<in> set (colors example_db)" and p: "token \<in> set (parts example_db)"
    by (simp_all add: example_db_def)
  have ids: "color_id red = 1" "part_id token = 1"
    by (simp_all add: red_def token_def)
  from getAll_listing [of example_db True] c p ids show ?thesis
    by fastforce
qed

section \<open>Soft delete of colors and parts\<close>

lemma map_id_upd:
  assumes "\<And>x. g (f x) = g x"
  shows "map g (map (\<lambda>x. if P x then f x else x) xs) = map g xs"
  using assms by (induction xs) auto

lemma Color_deactivate_found:
  "(\<exists>c\<in>set (colors db). color_id c = cid)
     \<longrightarrow> snd (Color_deactivate db cid) \<and> snd (Color_activate db cid)"
  by (auto simp: Color_deactivate_def Color_activate_def filter_empty_conv)

lemma Color_deactivate_missing:
  "\<not> (\<exists>c\<in>set (colors db). color_id c = cid)
     \<longrightarrow> Color_deactivate db cid = (db, False) \<and> Color_activate db cid = (db, False)"
  by (simp add: Color_deactivate_def Color_activate_def filter_empty_conv map_idI)

lemma Color_deactivate_length:
  "length (colors (fst (Color_deactivate db cid))) = length (colors db)"
  by (simp add: Color_deactivate_def)

lemma Color_deactivate_rows:
  "\<forall>i < length (colors db). colors (fst (Color_deactivate db cid)) ! i =
     (if color_id (colors db ! i) = cid then (colors db ! i)\<lparr>color_is_active := 0\<rparr>
      else colors db ! i)"
  by (simp add: Color_deactivate_def)

lemma Color_deactivate_frame:
  "fst (Color_deactivate db cid) = db\<lparr>colors := colors (fst (Color_deactivate db cid))\<rparr>"
  by (simp add: Color_deactivate_def)

lemma Color_deactivate_getById:
  "Color_getById (fst (Color_deactivate db cid)) k =
     map_option (\<lambda>c. if color_id c = cid then c\<lparr>color_is_active := 0\<rparr> else c)
       (Color_getById db k)"
  by (simp add: Color_deactivate_def Color_getById_def find_map_upd)

lemma Color_activate_getById:
  "Color_getById (fst (Color_activate db cid)) k =
     map_option (\<lambda>c. if color_id c = cid then c\<lparr>color_is_active := 1\<rparr> else c)
       (Color_getById db k)"
  by (simp add: Color_activate_def Color_getById_def find_map_upd)

lemma Color_getById_id: "Color_getById db k = Some c \<Longrightarrow> color_id c = k"
  by (auto simp: Color_getById_def find_Some_iff)

lemma Color_reactivate:
  "Color_getById (fst (Color_activate (fst (Color_deactivate db cid)) cid)) cid =
     map_option (\<lambda>c. c\<lparr>color_is_active := 1\<rparr>) (Color_getById db cid)"
  by (cases "Color_getById db cid")
     (auto simp: Color_activate_getById Color_deactivate_getById dest: Color_getById_id)

lemma Color_activate_ids:
  "map color_id (colors (fst (Color_activate db cid))) = map color_id (colors db)"
  by (simp add: Color_activate_def map_id_upd del: map_map)

lemma Color_create_appends:
  "\<forall>db2 r. Color_create db now d = Inr (db2, r) \<longrightarrow> (\<exists>row. colors db2 = colors db @ [row])"
  unfolding Color_create_def Let_def
  by (cases "d_color_name d"; cases "d_hex_code d") (auto split: if_splits)

lemma Color_update_ids:
  "\<forall>db2 r. Color_update db now cid d = Inr (db2, r)
     \<longrightarrow> map color_id (colors db2) = map color_id (colors db)"
  unfolding Color_update_def Let_def
  by (cases "d_color_name d"; cases "d_hex_code d")
     (auto simp: map_id_upd split: if_splits simp del: map_map)

lemma Part_deactivate_found:
  "(\<exists>p\<in>set (parts db). part_id p = pid)
     \<longrightarrow> snd (Part_deactivate db pid) \<and> snd (Part_activate db pid)"
  by (auto simp: Part_deactivate_def Part_activate_def filter_empty_conv)

lemma Part_deactivate_missing:
  "\<not> (\<exists>p\<in>set (parts db). part_id p = pid)
     \<longrightarrow> Part_deactivate db pid = (db, False) \<and> Part_activate db pid = (db, False)"
  by (simp add: Part_deactivate_def Part_activate_def filter_empty_conv map_idI)

lemma Part_deactivate_length:
  "length (parts (fst (Part_deactivate db pid))) = length (parts db)"
  by (simp add: Part_deactivate_def)

lemma Part_deactivate_rows:
  "\<forall>i < length (parts db). parts (fst (Part_deactivate db pid)) ! i =
     (if part_id (parts db ! i) = pid then (parts db ! i)\<lparr>part_is_active := 0\<rparr>
      else parts db ! i)"
  by (simp add: Part_deactivate_def)

lemma Part_deactivate_frame:
  "fst (Part_deactivate db pid) = db\<lparr>parts := parts (fst (Part_deactivate db pid))\<rparr>"
  by (simp add: Part_deactivate_def)

lemma Part_deactivate_getById:
  "Part_getById (fst (Part_deactivate db pid)) k =
     map_option (\<lambda>p. if part_id p = pid then p\<lparr>part_is_active := 0\<rparr> else p)
       (Part_getById db k)"
  by (simp add: Part_deactivate_def Part_getById_def find_map_upd)

lemma Part_activate_getById:
  "Part_getById (fst (Part_activate db pid)) k =
     map_option (\<lambda>p. if part_id p = pid then p\<lparr>part_is_active := 1\<rparr> else p)
       (Part_getById db k)"
  by (simp add: Part_activate_def Part_getById_def find_map_upd)

lemma Part_getById_id: "Part_getById db k = Some p \<Longrightarrow> part_id p = k"
  by (auto simp: Part_getById_def find_Some_iff)

lemma Part_reactivate:
  "Part_getById (fst (Part_activate (fst (Part_deactivate db pid)) pid)) pid =
     map_option (\<lambda>p. p\<lparr>part_is_active := 1\<rparr>) (Part_getById db pid)"
  by (cases "Part_getById db pid")
     (auto simp: Part_activate_getById Part_deactivate_getById dest: Part_getById_id)

lemma Part_activate_ids:
  "map part_id (parts (fst (Part_activate db pid))) = map part_id (parts db)"
  by (simp add: Part_activate_def map_id_upd del: map_map)

lemma Part_create_appends:
  "\<forall>db2 r. Part_create db now d = Inr (db2, r) \<longrightarrow> (\<exists>row. parts db2 = parts db @ [row])"
  unfolding Part_create_def Let_def
  by (cases "d_part_name d") (auto split: if_splits)

lemma Part_update_ids:
  "\<forall>db2 r. Part_update db now pid d = Inr (db2, r)
     \<longrightarrow> map part_id (parts db2) = map part_id (parts db)"
  unfolding Part_update_def Let_def
  by (cases "d_part_name d") (auto simp: map_id_upd split: if_splits simp del: map_map)

text \<open>
  Claim C8. For an existing color id (part id), \<open>deactivate\<close> returns true,
  sets \<open>is_active\<close> to 0 on the records with that id and changes no other
  field of them, no other record and no other table; the record is still
  returned by \<open>getById\<close>, and \<open>activate\<close> afterwards puts \<open>is_active\<close> back to
  1. For an id that is not stored, \<open>deactivate\<close> and \<open>activate\<close> return false
  and leave the database as it was. No writing operation of the two modules
  (\<open>create\<close>, \<open>update\<close>, \<open>deactivate\<close>, \<open>activate\<close>) removes a row; the
  other exports (\<open>getAll\<close>, \<open>getById\<close>, \<open>getByCode\<close>, \<open>search\<close>,
  \<open>getBySupplier\<close>) are SELECT statements and write nothing.
\<close>

theorem deactivate_soft_delete:
  "((\<exists>c\<in>set (colors db). color_id c = colorId)
      \<longrightarrow> snd (Color_deactivate db colorId) \<and> snd (Color_activate db colorId))
   \<and> (\<not> (\<exists>c\<in>set (colors db). color_id c = colorId)
      \<longrightarrow> Color_deactivate db colorId = (db, False) \<and> Color_activate db colorId = (db, False))
   \<and> length (colors (fst (Color_deactivate db colorId))) = length (colors db)
   \<and> (\<forall>i < length (colors db). colors (fst (Color_deactivate db colorId)) ! i =
        (if color_id (colors db ! i) = colorId then (colors db ! i)\<lparr>color_is_active := 0\<rparr>
         else colors db ! i))
   \<and> fst (Color_deactivate db colorId)
        = db\<lparr>colors := colors (fst (Color_deactivate db colorId))\<rparr>
   \<and> Color_getById (fst (Color_deactivate db colorId)) k =
        map_option (\<lambda>c. if color_id c = colorId then c\<lparr>color_is_active := 0\<rparr> else c)
          (Color_getById db k)
   \<and> Color_getById (fst (Color_activate (fst (Color_deactivate db colorId)) colorId)) colorId =
        map_option (\<lambda>c. c\<lparr>color_is_active := 1\<rparr>) (Color_getById db colorId)
   \<and> map color_id (colors (fst (Color_activate db colorId))) = map color_id (colors db)
   \<and> (\<forall>db2 r. Color_create db now colorData = Inr (db2, r)
        \<longrightarrow> (\<exists>row. colors db2 = colors db @ [row]))
   \<and> (\<forall>db2 r. Color_update db now colorId colorData = Inr (db2, r)
        \<longrightarrow> map color_id (colors db2) = map color_id (colors db))
   \<and> ((\<exists>p\<in>set (parts db). part_id p = partId)
      \<longrightarrow> snd (Part_deactivate db partId) \<and> snd (Part_activate db partId))
   \<and> (\<not> (\<exists>p\<in>set (parts db). part_id p = partId)
      \<longrightarrow> Part_deactivate db partId = (db, False) \<and> Part_activate db partId = (db, False))
   \<and> length (parts (fst (Part_deactivate db partId))) = length (parts db)
   \<and> (\<forall>i < length (parts db). parts (fst (Part_deactivate db partId)) ! i =
        (if part_id (parts db ! i) = partId then (parts db ! i)\<lparr>part_is_active := 0\<rparr>
         else parts db ! i))
   \<and> fst (Part_deactivate db partId) = db\<lparr>parts := parts (fst (Part_deactivate db partId))\<rparr>
   \<and> Part_getById (fst (Part_deactivate db partId)) j =
        map_option (\<lambda>p. if part_id p = partId then p\<lparr>part_is_active := 0\<rparr> else p)
          (Part_getById db j)
   \<and> Part_getById (fst (Part_activate (fst (Part_deactivate db partId)) partId)) partId =
        map_option (\<lambda>p. p\<lparr>part_is_active := 1\<rparr>) (Part_getById db partId)
   \<and> map part_id (parts (fst (Part_activate db partId))) = map part_id (parts db)
   \<and> (\<forall>db2 r. Part_create db now partData = Inr (db2, r)
        \<longrightarrow> (\<exists>row. parts db2 = parts db @ [row]))
   \<and> (\<forall>db2 r. Part_update db now partId partData = Inr (db2, r)
        \<longrightarrow> map part_id (parts db2) = map part_id (parts db))"
  by (intro conjI)
     (rule Color_deactivate_found Color_deactivate_missing Color_deactivate_length
        Color_deactivate_rows Color_deactivate_frame Color_deactivate_getById
        Color_reactivate Color_activate_ids Color_create_appends Color_update_ids
        Part_deactivate_found Part_deactivate_missing Part_deactivate_length
        Part_deactivate_rows Part_deactivate_frame Part_deactivate_getById
        Part_reactivate Part_activate_ids Part_create_appends Part_update_ids)+

theorem deactivate_soft_delete_witness:
  "red \<in> set (colors example_db) \<and> color_id red = 1
   \<and> snd (Color_deactivate example_db 1)
   \<and> Color_deactivate example_db 7 = (example_db, False)
   \<and> Color_getById (fst (Color_deactivate example_db 1)) 1 = Some (red\<lparr>color_is_active := 0\<rparr>)
   \<and> token \<in> set (parts example_db) \<and> part_id token = 1
   \<and> snd (Part_deactivate example_db 1)
   \<and> Part_deactivate example_db 7 = (example_db, False)
   \<and> Part_getById (fst (Part_deactivate example_db 1)) 1 = Some (token\<lparr>part_is_active := 0\<rparr>)"
proof -
  have c: "red \<in> set (colors example_db)" "color_id red = 1"
    and p: "token \<in> set (parts example_db)" "part_id token = 1"
    by (simp_all add: example_db_def red_def token_def)
  have nc: "\<not> (\<exists>c\<in>set (colors example_db). color_id c = 7)"
    and np: "\<not> (\<exists>p\<in>set (parts example_db). part_id p = 7)"
    by (simp_all add: example_db_def red_def black_def gold_def token_def lid_def)
  have g: "Color_getById example_db 1 = Some red" "Part_getById example_db 1 = Some token"
    by (simp_all add: Color_getById_def Part_getById_def example_db_def red_def token_def)
  note at_1 = deactivate_soft_delete
    [where db = example_db and colorId = 1 and k = 1 and partId = 1 and j = 1]
  note at_7 = deactivate_soft_delete [where db = example_db and colorId = 7 and partId = 7]
  have "snd (Color_deactivate example_db 1)" "snd (Part_deactivate example_db 1)"
    using at_1 c p by blast+
  moreover have "Color_getById (fst (Color_deactivate example_db 1)) 1 =
      map_option (\<lambda>c. if color_id c = 1 then c\<lparr>color_is_active := 0\<rparr> else c)
        (Color_getById example_db 1)"
    using at_1 by blast
  then have "Color_getById (fst (Color_deactivate example_db 1)) 1
      = Some (red\<lparr>color_is_active := 0\<rparr>)"
    using g c by simp
  moreover have "Part_getById (fst (Part_deactivate example_db 1)) 1 =
      map_option (\<lambda>p. if part_id p = 1 then p\<lparr>part_is_active := 0\<rparr> else p)
        (Part_getById example_db 1)"
    using at_1 by blast
  then have "Part_getById (fst (Part_deactivate example_db 1)) 1
      = Some (token\<lparr>part_is_active := 0\<rparr>)"
    using g p by simp
  moreover have "Color_deactivate example_db 7 = (example_db, False)"
    "Part_deactivate example_db 7 = (example_db, False)"
    using at_7 nc np by blast+
  ultimately show ?thesis using c p by simp
qed

section \<open>Unique color names\<close>

lemma str_includes_prefix: "str_includes (p @ s) p"
proof (cases "p @ s")
  case Nil
  then show ?thesis by simp
next
  case (Cons a l)
  have "take (length p) (p @ s) = p" by simp
  then have "take (length p) (a # l) = p" by (simp only: Cons)
  then show ?thesis by (simp add: Cons)
qed

lemma Color_create_duplicate:
  assumes "d_color_name colorData = Some name" "d_hex_code colorData = Some hex"
    and "name \<in> set (map color_name (colors db))"
  shows "Color_create db now colorData = Inl (UNIQUE_constraint_failed ''colors.color_name'')"
  using assms by (simp add: Color_create_def)

lemma Color_create_fresh:
  assumes "d_color_name colorData = Some name" "d_hex_code colorData = Some hex"
    and "name \<notin> set (map color_name (colors db))"
  shows "\<exists>db' c. Color_create db now colorData = Inr (db', Some c)
           \<and> color_name c = name \<and> hex_code c = hex \<and> color_is_active c = 1
           \<and> color_id c \<notin> set (map color_id (colors db))
           \<and> db' = db\<lparr>colors := colors db @ [c], colors_seq := color_id c\<rparr>
           \<and> Color_getById db' (color_id c) = Some c"
proof -
  define rowid where "rowid = next_rowid (colors_seq db) (map color_id (colors db))"
  define c where "c = \<lparr>color_id = rowid, color_name = name, hex_code = hex,
                     pantone_code = or_null (d_pantone_code colorData),
                     material_type = or_null (d_material_type colorData),
                     supplier = or_null (d_supplier colorData),
                     category = or_null (d_category colorData),
                     cost_per_gram = Some (or_zero (d_cost_per_gram colorData)),
                     stock_grams = Some (or_zero (d_stock_grams colorData)),
                     color_is_active = 1,
                     color_created_at = now, color_updated_at = now\<rparr>"
  define db' where "db' = db\<lparr>colors := colors db @ [c], colors_seq := rowid\<rparr>"
  have fresh: "rowid \<notin> set (map color_id (colors db))"
    unfolding rowid_def by (rule next_rowid_fresh)
  then have "\<forall>x \<in> set (colors db). \<not> color_id x = rowid" by auto
  then have found: "Color_getById db' rowid = Some c"
    unfolding Color_getById_def db'_def
    by (simp add: find_append_fresh c_def)
  have "Color_create db now colorData = Inr (db', Color_getById db' rowid)"
    using assms by (simp add: Color_create_def Let_def rowid_def c_def db'_def)
  with found fresh show ?thesis
    by (intro exI [of _ db'] exI [of _ c]) (simp add: c_def db'_def)
qed

text \<open>
  Claim C6. Creating a color whose \<open>color_name\<close> is the \<open>color_name\<close> of a
  stored color fails on the UNIQUE constraint (the POST handler answers 409)
  and writes nothing; creating one with a \<open>color_name\<close> that is not stored
  succeeds, appends the color and returns it as stored (the POST handler
  answers 201). \<open>color_name\<close> and \<open>hex_code\<close> are the two required
  properties of the data.
\<close>

theorem Color_create_unique_name:
  assumes "d_color_name colorData = Some name" and "d_hex_code colorData = Some hex"
  shows "(name \<in> set (map color_name (colors db)) \<longrightarrow>
            Color_create db now colorData = Inl (UNIQUE_constraint_failed ''colors.color_name'')
            \<and> (name \<noteq> [] \<and> hex \<noteq> [] \<longrightarrow>
                 POST_admin_api_colors db now colorData = Inr (409, db)))
       \<and> (name \<notin> set (map color_name (colors db)) \<longrightarrow>
            (\<exists>db' c. Color_create db now colorData = Inr (db', Some c)
               \<and> color_name c = name \<and> hex_code c = hex \<and> color_is_active c = 1
               \<and> color_id c \<notin> set (map color_id (colors db))
               \<and> db' = db\<lparr>colors := colors db @ [c], colors_seq := color_id c\<rparr>
               \<and> Color_getById db' (color_id c) = Some c
               \<and> (name \<noteq> [] \<and> hex \<noteq> [] \<longrightarrow>
                    POST_admin_api_colors db now colorData = Inr (201, db'))))"
proof (intro conjI impI)
  assume dup: "name \<in> set (map color_name (colors db))"
  show failed: "Color_create db now colorData
      = Inl (UNIQUE_constraint_failed ''colors.color_name'')"
    using assms dup by (rule Color_create_duplicate)
  assume "name \<noteq> [] \<and> hex \<noteq> []"
  then show "POST_admin_api_colors db now colorData = Inr (409, db)"
    using assms failed
    by (simp add: POST_admin_api_colors_def falsy_def message_def str_includes_prefix)
next
  assume "name \<notin> set (map color_name (colors db))"
  with assms obtain db' c where created: "Color_create db now colorData = Inr (db', Some c)"
    and row: "color_name c = name" "hex_code c = hex" "color_is_active c = 1"
      "color_id c \<notin> set (map color_id (colors db))"
      "db' = db\<lparr>colors := colors db @ [c], colors_seq := color_id c\<rparr>"
      "Color_getById db' (color_id c) = Some c"
    using Color_create_fresh [of colorData name hex db now] by blast
  have "name \<noteq> [] \<and> hex \<noteq> [] \<longrightarrow> POST_admin_api_colors db now colorData = Inr (201, db')"
    using assms created by (simp add: POST_admin_api_colors_def falsy_def)
  with created row
  show "\<exists>db' c. Color_create db now colorData = Inr (db', Some c)
               \<and> color_name c = name \<and> hex_code c = hex \<and> color_is_active c = 1
               \<and> color_id c \<notin> set (map color_id (colors db))
               \<and> db' = db\<lparr>colors := colors db @ [c], colors_seq := color_id c\<rparr>
               \<and> Color_getById db' (color_id c) = Some c
               \<and> (name \<noteq> [] \<and> hex \<noteq> [] \<longrightarrow>
                    POST_admin_api_colors db now colorData = Inr (201, db'))"
    by blast
qed

theorem Color_create_unique_name_witness:
  "Color_create example_db ''2025-10-21 09:00:00'' red_again
     = Inl (UNIQUE_constraint_failed ''colors.color_name'')
   \<and> POST_admin_api_colors example_db ''2025-10-21 09:00:00'' red_again = Inr (409, example_db)
   \<and> (\<exists>db' c. Color_create example_db ''2025-10-21 09:00:00'' silver = Inr (db', Some c)
         \<and> color_name c = ''Silver''
         \<and> POST_admin_api_colors example_db ''2025-10-21 09:00:00'' silver = Inr (201, db'))"
proof -
  have r: "d_color_name red_again = Some ''Red''" "d_hex_code red_again = Some ''#FF0000''"
    and s: "d_color_name silver = Some ''Silver''" "d_hex_code silver = Some ''#C8C8C8''"
    by (simp_all add: red_again_def silver_def)
  have names: "map color_name (colors example_db) = [''Red'', ''Black'', ''Gold'']"
    by (simp add: example_db_def red_def black_def gold_def)
  from Color_create_unique_name [OF r, of example_db "''2025-10-21 09:00:00''"] names
  have "Color_create example_db ''2025-10-21 09:00:00'' red_again
      = Inl (UNIQUE_constraint_failed ''colors.color_name'')
    \<and> POST_admin_api_colors example_db ''2025-10-21 09:00:00'' red_again = Inr (409, example_db)"
    by simp
  moreover
  from Color_create_unique_name [OF s, of example_db "''2025-10-21 09:00:00''"] names
  have "\<exists>db' c. Color_create example_db ''2025-10-21 09:00:00'' silver = Inr (db', Some c)
         \<and> color_name c = ''Silver''
         \<and> POST_admin_api_colors example_db ''2025-10-21 09:00:00'' silver = Inr (201, db')"
    by simp blast
  ultimately show ?thesis by blast
qed

section \<open>The parts of a template on the two read paths\<close>

text \<open>
  Claim C9 (the code departs from it). The template \<open>token_box\<close> of
  \<open>example_db\<close> has no parts. \<open>getById\<close> returns it with an empty parts
  array; \<open>getAll\<close> returns it with one part, all of whose properties are
  \<open>null\<close>: the LEFT JOIN gives the template one row of NULLs,
  \<open>json_object\<close> of NULLs is a JSON text and not NULL, so \<open>parts_json\<close> is a
  non-empty string although \<open>part_count\<close> is 0.
\<close>

theorem getAll_template_without_parts:
  "filter (\<lambda>tp. tp_template_id tp = 1) (template_parts example_db) = []
   \<and> map_option t_parts (ProductTemplate_getById example_db 1) = Some []
   \<and> map_option (map (\<lambda>l. (template_id (l_template l), part_count l, l_parts l)))
        (ProductTemplate_getAll example_db False)
      = Some [(1, 0, [[(''part_id'', JNull), (''part_code'', JNull),
                       (''part_name'', JNull), (''quantity'', JNull)]])]"
  by code_simp

section \<open>Attaching parts to a template\<close>

text \<open>
  Claim C7, as stated, fails: \<open>lid\<close> is a deactivated part of \<open>example_db\<close>,
  and \<open>addPart\<close> attaches it to the template \<open>token_box\<close>; the POST handler
  answers 200.
\<close>

theorem addPart_inactive_part_counterexample:
  "Part_getById example_db 2 = Some lid \<and> part_is_active lid = 0
   \<and> ProductTemplate_addPart example_db 1 2 1
       = Inr (example_db\<lparr>template_parts :=
                [\<lparr>tp_template_id = 1, tp_part_id = 2, quantity = 1\<rparr>]\<rparr>, True)
   \<and> POST_admin_api_templates_parts example_db 1 \<lparr>b_part_id = Some 2, b_quantity = None\<rparr>
       = Inr (200, example_db\<lparr>template_parts :=
                [\<lparr>tp_template_id = 1, tp_part_id = 2, quantity = 1\<rparr>]\<rparr>)"
  by (simp add: Part_getById_def ProductTemplate_addPart_def POST_admin_api_templates_parts_def
      quantity_or_1_def example_db_def empty_database_def token_def lid_def token_box_def)

text \<open>
  Claim C7, amended. \<open>addPart\<close> does not read \<open>is_active\<close>: for a template
  and a part that are stored, the part active or not, it returns true and
  \<open>template_parts\<close> then has a row for the pair with the given quantity, every
  other table being as before. What it refuses is a part id (or template id)
  that resolves to no record, when the pair has no row yet: the foreign key
  fails and nothing is written.
\<close>

theorem addPart_any_stored_part:
  "((\<exists>t\<in>set (product_templates db). template_id t = templateId)
      \<and> (\<exists>p\<in>set (parts db). part_id p = partId \<and> part_is_active p = active)
    \<longrightarrow> (\<exists>db'. ProductTemplate_addPart db templateId partId qty = Inr (db', True)
          \<and> (\<exists>tp\<in>set (template_parts db').
                 tp_template_id tp = templateId \<and> tp_part_id tp = partId \<and> quantity tp = qty)
          \<and> length (template_parts db') =
               (if \<exists>tp\<in>set (template_parts db).
                     tp_template_id tp = templateId \<and> tp_part_id tp = partId
                then length (template_parts db) else Suc (length (template_parts db)))
          \<and> db' = db\<lparr>template_parts := template_parts db'\<rparr>))
   \<and> (\<not> (\<exists>p\<in>set (parts db). part_id p = partId)
      \<and> \<not> (\<exists>tp\<in>set (template_parts db).
              tp_template_id tp = templateId \<and> tp_part_id tp = partId)
    \<longrightarrow> ProductTemplate_addPart db templateId partId qty = Inl FOREIGN_KEY_constraint_failed)"
proof (intro conjI impI)
  assume stored: "(\<exists>t\<in>set (product_templates db). template_id t = templateId)
      \<and> (\<exists>p\<in>set (parts db). part_id p = partId \<and> part_is_active p = active)"
  show "\<exists>db'. ProductTemplate_addPart db templateId partId qty = Inr (db', True)
          \<and> (\<exists>tp\<in>set (template_parts db').
                 tp_template_id tp = templateId \<and> tp_part_id tp = partId \<and> quantity tp = qty)
          \<and> length (template_parts db') =
               (if \<exists>tp\<in>set (template_parts db).
                     tp_template_id tp = templateId \<and> tp_part_id tp = partId
                then length (template_parts db) else Suc (length (template_parts db)))
          \<and> db' = db\<lparr>template_parts := template_parts db'\<rparr>"
  proof (cases "\<exists>tp\<in>set (template_parts db).
                  tp_template_id tp = templateId \<and> tp_part_id tp = partId")
    case True
    then obtain tp where tp: "tp \<in> set (template_parts db)"
      "tp_template_id tp = templateId" "tp_part_id tp = partId"
      by blast
    define upd :: "template_part \<Rightarrow> template_part"
      where "upd = (\<lambda>tp. if tp_template_id tp = templateId \<and> tp_part_id tp = partId
                               then tp\<lparr>quantity := qty\<rparr> else tp)"
    have "upd tp \<in> set (map upd (template_parts db))"
      using tp(1) by simp
    moreover have "tp_template_id (upd tp) = templateId" "tp_part_id (upd tp) = partId"
      "quantity (upd tp) = qty"
      using tp by (simp_all add: upd_def)
    ultimately have "\<exists>r\<in>set (map upd (template_parts db)).
        tp_template_id r = templateId \<and> tp_part_id r = partId \<and> quantity r = qty"
      by blast
    moreover have "ProductTemplate_addPart db templateId partId qty
        = Inr (db\<lparr>template_parts := map upd (template_parts db)\<rparr>, True)"
      using True by (simp add: ProductTemplate_addPart_def upd_def)
    ultimately show ?thesis
      using True by simp
  next
    case False
    with stored show ?thesis
      by (auto simp: ProductTemplate_addPart_def)
  qed
next
  assume "\<not> (\<exists>p\<in>set (parts db). part_id p = partId)
      \<and> \<not> (\<exists>tp\<in>set (template_parts db).
              tp_template_id tp = templateId \<and> tp_part_id tp = partId)"
  then show "ProductTemplate_addPart db templateId partId qty = Inl FOREIGN_KEY_constraint_failed"
    by (simp add: ProductTemplate_addPart_def)
qed

theorem addPart_any_stored_part_witness:
  "token_box \<in> set (product_templates example_db) \<and> template_id token_box = 1
   \<and> lid \<in> set (parts example_db) \<and> part_id lid = 2 \<and> part_is_active lid = 0
   \<and> (\<exists>db'. ProductTemplate_addPart example_db 1 2 4 = Inr (db', True)
         \<and> length (template_parts db') = 1)
   \<and> ProductTemplate_addPart example_db 1 99 4 = Inl FOREIGN_KEY_constraint_failed"
proof -
  have t: "token_box \<in> set (product_templates example_db)" "template_id token_box = 1"
    and p: "lid \<in> set (parts example_db)" "part_id lid = 2" "part_is_active lid = 0"
    and none: "template_parts example_db = []"
    and unknown: "\<not> (\<exists>p\<in>set (parts example_db). part_id p = 99)"
    by (simp_all add: example_db_def empty_database_def token_box_def lid_def token_def)
  note at_lid = addPart_any_stored_part
    [where db = example_db and templateId = 1 and partId = 2 and active = 0 and qty = 4]
  note at_99 = addPart_any_stored_part
    [where db = example_db and templateId = 1 and partId = 99 and qty = 4]
  have "\<exists>db'. ProductTemplate_addPart example_db 1 2 4 = Inr (db', True)
         \<and> length (template_parts db') = 1"
    using at_lid t p none by fastforce
  moreover have "ProductTemplate_addPart example_db 1 99 4 = Inl FOREIGN_KEY_constraint_failed"
    using at_99 unknown none by simp
  ultimately show ?thesis using t p by simp
qed

section \<open>Creating a product template\<close>

lemma insert_template_parts_stores:
  assumes "distinct (map pd_part_id ps)"
    and "\<forall>x\<in>set ps. \<exists>p\<in>set (parts db). part_id p = pd_part_id x"
    and "\<exists>t\<in>set (product_templates db). template_id t = tid"
    and "\<forall>tp\<in>set (template_parts db).
           tp_template_id tp = tid \<longrightarrow> tp_part_id tp \<notin> pd_part_id ` set ps"
  shows "insert_template_parts db tid ps =
           Inr (db\<lparr>template_parts := template_parts db @
                  map (\<lambda>x. \<lparr>tp_template_id = tid, tp_part_id = pd_part_id x,
                             quantity = quantity_or_1 (pd_quantity x)\<rparr>) ps\<rparr>)"
  using assms
proof (induction ps arbitrary: db)
  case Nil
  then show ?case by simp
next
  case (Cons x ps)
  let ?row = "\<lparr>tp_template_id = tid, tp_part_id = pd_part_id x,
               quantity = quantity_or_1 (pd_quantity x)\<rparr>"
  let ?db = "db\<lparr>template_parts := template_parts db @ [?row]\<rparr>"
  have no_row: "\<not> (\<exists>tp \<in> set (template_parts db).
                    tp_template_id tp = tid \<and> tp_part_id tp = pd_part_id x)"
    using Cons.prems(4) by auto
  have known: "\<exists>p \<in> set (parts db). part_id p = pd_part_id x"
    using Cons.prems(2) by simp
  have step: "insert_template_parts db tid (x # ps) = insert_template_parts ?db tid ps"
    by (simp add: no_row known Cons.prems(3))
  have "insert_template_parts ?db tid ps =
      Inr (?db\<lparr>template_parts := template_parts ?db @
             map (\<lambda>x. \<lparr>tp_template_id = tid, tp_part_id = pd_part_id x,
                        quantity = quantity_or_1 (pd_quantity x)\<rparr>) ps\<rparr>)"
  proof (rule Cons.IH)
    show "distinct (map pd_part_id ps)" using Cons.prems(1) by simp
    show "\<forall>x\<in>set ps. \<exists>p\<in>set (parts ?db). part_id p = pd_part_id x"
      using Cons.prems(2) by simp
    show "\<exists>t\<in>set (product_templates ?db). template_id t = tid"
      using Cons.prems(3) by simp
    show "\<forall>tp\<in>set (template_parts ?db).
           tp_template_id tp = tid \<longrightarrow> tp_part_id tp \<notin> pd_part_id ` set ps"
      using Cons.prems(1,4) by auto
  qed
  with step show ?case by simp
qed

lemma insert_template_parts_unknown:
  assumes "\<exists>x\<in>set ps. \<not> (\<exists>p\<in>set (parts db). part_id p = pd_part_id x)"
  shows "\<exists>e. insert_template_parts db tid ps = Inl e"
  using assms
proof (induction ps arbitrary: db)
  case Nil
  then show ?case by simp
next
  case (Cons x ps)
  show ?case
  proof (cases "\<exists>p\<in>set (parts db). part_id p = pd_part_id x")
    case False
    then show ?thesis by simp
  next
    case True
    with Cons.prems have rest: "\<exists>y\<in>set ps. \<not> (\<exists>p\<in>set (parts db). part_id p = pd_part_id y)"
      by auto
    let ?db = "db\<lparr>template_parts := template_parts db @
                 [\<lparr>tp_template_id = tid, tp_part_id = pd_part_id x,
                   quantity = quantity_or_1 (pd_quantity x)\<rparr>]\<rparr>"
    from rest have "\<exists>y\<in>set ps. \<not> (\<exists>p\<in>set (parts ?db). part_id p = pd_part_id y)"
      by simp
    then have "\<exists>e. insert_template_parts ?db tid ps = Inl e"
      by (rule Cons.IH)
    then show ?thesis by auto
  qed
qed

lemma create_rejects_num_colors:
  assumes "case d_num_colors d of None \<Rightarrow> True | Some n \<Rightarrow> n < 1 \<or> 4 < n"
  shows "\<exists>e. ProductTemplate_create db now d = Inl e"
    and "POST_admin_api_templates db now d = Inr (400, db)"
  using assms
  by (auto simp: ProductTemplate_create_def POST_admin_api_templates_def
      split: option.splits)

lemma create_stores:
  assumes name: "d_template_name d = Some name" "name \<noteq> []"
      "name \<notin> set (map template_name (product_templates db))"
    and n: "d_num_colors d = Some n" "1 \<le> n" "n \<le> 4"
    and ps: "distinct (map pd_part_id (d_parts d))"
      "\<forall>x\<in>set (d_parts d). \<exists>p\<in>set (parts db). part_id p = pd_part_id x"
    and fk: "\<forall>tp\<in>set (template_parts db).
               \<exists>t\<in>set (product_templates db). template_id t = tp_template_id tp"
  shows "\<exists>db' r. ProductTemplate_create db now d = Inr (db', Some r)
           \<and> ProductTemplate_getById db' (template_id (t_template r)) = Some r
           \<and> template_name (t_template r) = name \<and> num_colors (t_template r) = n
           \<and> template_id (t_template r) \<notin> set (map template_id (product_templates db))
           \<and> product_templates db' = product_templates db @ [t_template r]
           \<and> template_parts db' = template_parts db @
                map (\<lambda>x. \<lparr>tp_template_id = template_id (t_template r),
                           tp_part_id = pd_part_id x,
                           quantity = quantity_or_1 (pd_quantity x)\<rparr>) (d_parts d)
           \<and> POST_admin_api_templates db now d = Inr (201, db')"
proof -
  define tid where
    "tid = next_rowid (product_templates_seq db) (map template_id (product_templates db))"
  define row where "row = \<lparr>template_id = tid, template_name = name,
      template_description = or_null (d_template_description d), num_colors = n,
      print_time_minutes = (case d_print_time_minutes d of None \<Rightarrow> 0 | Some m \<Rightarrow> m),
      print_cost = or_zero (d_print_cost d), template_is_active = 1,
      template_created_at = now, template_updated_at = now\<rparr>"
  define db1 where
    "db1 = db\<lparr>product_templates := product_templates db @ [row],
              product_templates_seq := tid\<rparr>"
  define db2 where "db2 = db1\<lparr>template_parts := template_parts db1 @
      map (\<lambda>x. \<lparr>tp_template_id = tid, tp_part_id = pd_part_id x,
                 quantity = quantity_or_1 (pd_quantity x)\<rparr>) (d_parts d)\<rparr>"
  have fresh: "tid \<notin> set (map template_id (product_templates db))"
    unfolding tid_def by (rule next_rowid_fresh)
  have parts_ok: "insert_template_parts db1 tid (d_parts d) = Inr db2"
    unfolding db2_def
  proof (rule insert_template_parts_stores)
    show "distinct (map pd_part_id (d_parts d))" by (rule ps(1))
    show "\<forall>x\<in>set (d_parts d). \<exists>p\<in>set (parts db1). part_id p = pd_part_id x"
      using ps(2) by (simp add: db1_def)
    show "\<exists>t\<in>set (product_templates db1). template_id t = tid"
      by (simp add: db1_def row_def)
    show "\<forall>tp\<in>set (template_parts db1).
           tp_template_id tp = tid \<longrightarrow> tp_part_id tp \<notin> pd_part_id ` set (d_parts d)"
    proof (intro ballI impI)
      fix tp
      assume "tp \<in> set (template_parts db1)" and "tp_template_id tp = tid"
      then have "\<exists>t\<in>set (product_templates db). template_id t = tid"
        using fk by (auto simp: db1_def)
      with fresh show "tp_part_id tp \<notin> pd_part_id ` set (d_parts d)"
        by auto
    qed
  qed
  have "\<forall>t\<in>set (product_templates db). \<not> template_id t = tid"
    using fresh by auto
  then have found: "find (\<lambda>t. template_id t = tid) (product_templates db2) = Some row"
    by (simp add: db2_def db1_def find_append_fresh row_def)
  then obtain r where r: "ProductTemplate_getById db2 tid = Some r" "t_template r = row"
    by (simp add: ProductTemplate_getById_def)
  have created: "ProductTemplate_create db now d = Inr (db2, Some r)"
    using name n parts_ok r(1)
    by (simp add: ProductTemplate_create_def Let_def tid_def [symmetric] row_def [symmetric]
        db1_def [symmetric])
  have posted: "POST_admin_api_templates db now d = Inr (201, db2)"
    using name n created by (simp add: POST_admin_api_templates_def falsy_def)
  show ?thesis
    using created posted r fresh
    by (intro exI [of _ db2] exI [of _ r]) (simp add: row_def db2_def db1_def)
qed

lemma create_unknown_part:
  assumes "\<exists>x\<in>set (d_parts d). \<not> (\<exists>p\<in>set (parts db). part_id p = pd_part_id x)"
  shows "\<exists>e. ProductTemplate_create db now d = Inl e"
proof -
  have no: "False" if "insert_template_parts db1 tid (d_parts d) = Inr db2"
    and "parts db1 = parts db" for db1 tid db2
  proof -
    have "\<exists>e. insert_template_parts db1 tid (d_parts d) = Inl e"
      using assms that(2) by (intro insert_template_parts_unknown) simp
    with that(1) show False by simp
  qed
  show ?thesis
    unfolding ProductTemplate_create_def Let_def
    by (cases "d_template_name d"; cases "d_num_colors d")
       (auto split: sum.splits dest!: no)
qed

text \<open>
  Claim C5, as stated, fails: with \<open>num_colors = 4\<close> and a fresh
  \<open>template_name\<close>, \<open>create\<close> throws when a supplied \<open>part_id\<close> is no stored
  part (the foreign key of \<open>template_parts\<close>), and the transaction leaves no
  template either; and a supplied quantity of 0 is stored as 1
  (\<open>part.quantity || 1\<close>), so the stored row is not the supplied one.
\<close>

theorem create_unknown_part_counterexample:
  "d_num_colors ghost_set = Some 4 \<and> d_template_name ghost_set = Some ''Marker Set''
   \<and> map template_name (product_templates example_db) = [''Token Box'']
   \<and> ProductTemplate_create example_db ''2025-10-21 09:00:00'' ghost_set
       = Inl FOREIGN_KEY_constraint_failed
   \<and> map pd_quantity (d_parts unit_token_set) = [Some 0]
   \<and> (case ProductTemplate_create example_db ''2025-10-21 09:00:00'' unit_token_set of
         Inl e \<Rightarrow> [] | Inr (db', r) \<Rightarrow> map quantity (template_parts db')) = [1]"
  by (simp add: ghost_set_def unit_token_set_def marker_set_def example_db_def
      empty_database_def token_box_def token_def lid_def ProductTemplate_create_def Let_def
      quantity_or_1_def next_rowid_def)

text \<open>
  Claim C5, amended. \<open>create\<close> fails whenever \<open>num_colors\<close> is missing or
  outside 1..4, writing nothing, and the POST handler answers 400. For
  \<open>num_colors\<close> in 1..4, a non-empty \<open>template_name\<close> that is not stored and
  supplied parts whose \<open>part_id\<close>s are pairwise distinct and all stored, it
  appends the template and one \<open>template_parts\<close> row per supplied part (a
  missing or zero quantity stored as 1) and returns the created template as
  \<open>getById\<close> reads it; the POST handler answers 201. When a supplied
  \<open>part_id\<close> is not stored, it fails and nothing is created. (The stored
  \<open>template_parts\<close> rows reference stored templates: the foreign key.)
\<close>

theorem create_template_with_parts:
  "((case d_num_colors d of None \<Rightarrow> True | Some n \<Rightarrow> n < 1 \<or> 4 < n)
      \<longrightarrow> (\<exists>e. ProductTemplate_create db now d = Inl e)
          \<and> POST_admin_api_templates db now d = Inr (400, db))
   \<and> (d_template_name d = Some name \<and> name \<noteq> []
       \<and> name \<notin> set (map template_name (product_templates db))
       \<and> d_num_colors d = Some n \<and> 1 \<le> n \<and> n \<le> 4
       \<and> distinct (map pd_part_id (d_parts d))
       \<and> (\<forall>x\<in>set (d_parts d). \<exists>p\<in>set (parts db). part_id p = pd_part_id x)
       \<and> (\<forall>tp\<in>set (template_parts db).
             \<exists>t\<in>set (product_templates db). template_id t = tp_template_id tp)
      \<longrightarrow> (\<exists>db' r. ProductTemplate_create db now d = Inr (db', Some r)
             \<and> ProductTemplate_getById db' (template_id (t_template r)) = Some r
             \<and> template_name (t_template r) = name \<and> num_colors (t_template r) = n
             \<and> template_id (t_template r) \<notin> set (map template_id (product_templates db))
             \<and> product_templates db' = product_templates db @ [t_template r]
             \<and> template_parts db' = template_parts db @
                  map (\<lambda>x. \<lparr>tp_template_id = template_id (t_template r),
                             tp_part_id = pd_part_id x,
                             quantity = quantity_or_1 (pd_quantity x)\<rparr>) (d_parts d)
             \<and> POST_admin_api_templates db now d = Inr (201, db')))
   \<and> ((\<exists>x\<in>set (d_parts d). \<not> (\<exists>p\<in>set (parts db). part_id p = pd_part_id x))
      \<longrightarrow> (\<exists>e. ProductTemplate_create db now d = Inl e))"
proof (intro conjI impI)
  assume bad: "case d_num_colors d of None \<Rightarrow> True | Some n \<Rightarrow> n < 1 \<or> 4 < n"
  show "\<exists>e. ProductTemplate_create db now d = Inl e"
    using bad by (rule create_rejects_num_colors)
  show "POST_admin_api_templates db now d = Inr (400, db)"
    using bad by (rule create_rejects_num_colors)
next
  assume "d_template_name d = Some name \<and> name \<noteq> []
       \<and> name \<notin> set (map template_name (product_templates db))
       \<and> d_num_colors d = Some n \<and> 1 \<le> n \<and> n \<le> 4
       \<and> distinct (map pd_part_id (d_parts d))
       \<and> (\<forall>x\<in>set (d_parts d). \<exists>p\<in>set (parts db). part_id p = pd_part_id x)
       \<and> (\<forall>tp\<in>set (template_parts db).
             \<exists>t\<in>set (product_templates db). template_id t = tp_template_id tp)"
  then show "\<exists>db' r. ProductTemplate_create db now d = Inr (db', Some r)
             \<and> ProductTemplate_getById db' (template_id (t_template r)) = Some r
             \<and> template_name (t_template r) = name \<and> num_colors (t_template r) = n
             \<and> template_id (t_template r) \<notin> set (map template_id (product_templates db))
             \<and> product_templates db' = product_templates db @ [t_template r]
             \<and> template_parts db' = template_parts db @
                  map (\<lambda>x. \<lparr>tp_template_id = template_id (t_template r),
                             tp_part_id = pd_part_id x,
                             quantity = quantity_or_1 (pd_quantity x)\<rparr>) (d_parts d)
             \<and> POST_admin_api_templates db now d = Inr (201, db')"
    using create_stores [of d name db n now] by blast
next
  assume "\<exists>x\<in>set (d_parts d). \<not> (\<exists>p\<in>set (parts db). part_id p = pd_part_id x)"
  then show "\<exists>e. ProductTemplate_create db now d = Inl e"
    by (rule create_unknown_part)
qed

theorem create_template_with_parts_witness:
  "d_num_colors marker_set = Some 4
   \<and> (\<exists>db' r. ProductTemplate_create example_db ''2025-10-21 09:00:00'' marker_set
                 = Inr (db', Some r)
        \<and> template_name (t_template r) = ''Marker Set''
        \<and> map quantity (template_parts db') = [16, 1]
        \<and> POST_admin_api_templates example_db ''2025-10-21 09:00:00'' marker_set
            = Inr (201, db'))
   \<and> d_num_colors (marker_set\<lparr>d_num_colors := Some 5\<rparr>) = Some 5
   \<and> POST_admin_api_templates example_db ''2025-10-21 09:00:00''
        (marker_set\<lparr>d_num_colors := Some 5\<rparr>) = Inr (400, example_db)
   \<and> (\<exists>e. ProductTemplate_create example_db ''2025-10-21 09:00:00'' ghost_set = Inl e)"
proof -
  note at_marker = create_template_with_parts
    [where d = marker_set and db = example_db and name = "''Marker Set''" and n = 4
       and now = "''2025-10-21 09:00:00''"]
  note at_five = create_template_with_parts
    [where d = "marker_set\<lparr>d_num_colors := Some 5\<rparr>" and db = example_db
       and now = "''2025-10-21 09:00:00''"]
  note at_ghost = create_template_with_parts
    [where d = ghost_set and db = example_db and now = "''2025-10-21 09:00:00''"]
  have pre: "d_template_name marker_set = Some ''Marker Set''"
    "''Marker Set'' \<notin> set (map template_name (product_templates example_db))"
    "d_num_colors marker_set = Some 4"
    "distinct (map pd_part_id (d_parts marker_set))"
    "\<forall>x\<in>set (d_parts marker_set). \<exists>p\<in>set (parts example_db). part_id p = pd_part_id x"
    "\<forall>tp\<in>set (template_parts example_db).
       \<exists>t\<in>set (product_templates example_db). template_id t = tp_template_id tp"
    "template_parts example_db = []"
    by (simp_all add: marker_set_def example_db_def empty_database_def token_box_def
        token_def lid_def)
  have "\<exists>db' r. ProductTemplate_create example_db ''2025-10-21 09:00:00'' marker_set
                 = Inr (db', Some r)
        \<and> template_name (t_template r) = ''Marker Set''
        \<and> template_parts db' = template_parts example_db @
                  map (\<lambda>x. \<lparr>tp_template_id = template_id (t_template r),
                             tp_part_id = pd_part_id x,
                             quantity = quantity_or_1 (pd_quantity x)\<rparr>) (d_parts marker_set)
        \<and> POST_admin_api_templates example_db ''2025-10-21 09:00:00'' marker_set
            = Inr (201, db')"
    using at_marker pre(1-6) by simp blast
  then have "\<exists>db' r. ProductTemplate_create example_db ''2025-10-21 09:00:00'' marker_set
                 = Inr (db', Some r)
        \<and> template_name (t_template r) = ''Marker Set''
        \<and> map quantity (template_parts db') = [16, 1]
        \<and> POST_admin_api_templates example_db ''2025-10-21 09:00:00'' marker_set
            = Inr (201, db')"
    using pre(7) by (auto simp: marker_set_def quantity_or_1_def)
  moreover have "POST_admin_api_templates example_db ''2025-10-21 09:00:00''
        (marker_set\<lparr>d_num_colors := Some 5\<rparr>) = Inr (400, example_db)"
    using at_five by simp
  moreover have "\<exists>x\<in>set (d_parts ghost_set).
      \<not> (\<exists>p\<in>set (parts example_db). part_id p = pd_part_id x)"
    by (simp add: ghost_set_def example_db_def token_def lid_def)
  then have "\<exists>e. ProductTemplate_create example_db ''2025-10-21 09:00:00'' ghost_set = Inl e"
    using at_ghost by blast
  ultimately show ?thesis using pre(3) by simp
qed

section \<open>Invariants of the workflow tables\<close>

lemma platform_values_enum:
  "platform_values = map platform_text [Shopify, Etsy, CustomOrder]"
  by (simp add: platform_values_def)

lemma platform_text_values: "(\<exists>p. s = platform_text p) \<longleftrightarrow> s \<in> set platform_values"
proof
  assume "\<exists>p. s = platform_text p"
  then obtain p where "s = platform_text p" ..
  moreover have "p \<in> set [Shopify, Etsy, CustomOrder]" by (cases p) simp_all
  ultimately show "s \<in> set platform_values"
    unfolding platform_values_enum by (simp only: set_map image_eqI)
next
  assume "s \<in> set platform_values"
  then show "\<exists>p. s = platform_text p"
    unfolding platform_values_enum by (auto simp only: set_map)
qed

lemma status_values_enum:
  "status_values = map status_text [InQueue, InPrintfarm, Printed, Assembled, Packed, Shipped]"
  by (simp add: status_values_def)

lemma status_text_values: "(\<exists>e. s = status_text e) \<longleftrightarrow> s \<in> set status_values"
proof
  assume "\<exists>e. s = status_text e"
  then obtain e where "s = status_text e" ..
  moreover have "e \<in> set [InQueue, InPrintfarm, Printed, Assembled, Packed, Shipped]"
    by (cases e) simp_all
  ultimately show "s \<in> set status_values"
    unfolding status_values_enum by (simp only: set_map image_eqI)
next
  assume "s \<in> set status_values"
  then show "\<exists>e. s = status_text e"
    unfolding status_values_enum by (auto simp only: set_map)
qed

lemma committed_Some: "committed r = Some db' \<longleftrightarrow> r = Inr db'"
  by (cases r) (simp_all add: committed_def)

lemma order_constraints_platform:
  "order_constraints others d = None \<Longrightarrow> the (o_platform d) \<in> set platform_values"
  by (simp add: order_constraints_def split: if_splits)

lemma INSERT_order_writes:
  assumes "INSERT_order db now d = Inr db'"
  shows "items db' = items db"
    and "\<exists>r. orders db' = orders db @ [r] \<and> platform r \<in> set platform_values
           \<and> o_platform d = Some (platform r)"
proof -
  from assms have ok: "order_constraints (orders db) d = None"
    by (simp add: INSERT_order_def split: option.splits)
  then have "the (o_platform d) \<in> set platform_values"
    by (rule order_constraints_platform)
  moreover from ok have "o_platform d \<noteq> None"
    by (simp add: order_constraints_def split: if_splits)
  ultimately show "\<exists>r. orders db' = orders db @ [r] \<and> platform r \<in> set platform_values
           \<and> o_platform d = Some (platform r)"
    using assms ok by (auto simp: INSERT_order_def Let_def)
  show "items db' = items db"
    using assms ok by (auto simp: INSERT_order_def Let_def)
qed

lemma UPDATE_order_writes:
  assumes "UPDATE_order db now k d = Inr db'"
  shows "items db' = items db"
    and "\<forall>r\<in>set (orders db'). r \<in> set (orders db) \<or> platform r \<in> set platform_values"
proof -
  show "items db' = items db"
    using assms by (auto simp: UPDATE_order_def split: if_splits option.splits)
  show "\<forall>r\<in>set (orders db'). r \<in> set (orders db) \<or> platform r \<in> set platform_values"
  proof (cases "\<exists>r \<in> set (orders db). order_id r = k")
    case False
    with assms show ?thesis by (simp add: UPDATE_order_def)
  next
    case True
    with assms have ok: "order_constraints (filter (\<lambda>r. order_id r \<noteq> k) (orders db)) d = None"
      by (simp add: UPDATE_order_def split: option.splits)
    then have "the (o_platform d) \<in> set platform_values"
      by (rule order_constraints_platform)
    with assms True ok show ?thesis
      by (auto simp: UPDATE_order_def)
  qed
qed

lemma INSERT_product_writes:
  assumes "INSERT_product db now k name = Inr db'"
  shows "items db' = items db" and "orders db' = orders db"
  using assms by (auto simp: INSERT_product_def Let_def split: option.splits if_splits)

lemma INSERT_item_writes:
  assumes "INSERT_item db now k name st = Inr (db', i)"
  shows "orders db' = orders db"
    and "status_history db' = status_history db"
    and "\<exists>r. items db' = items db @ [r] \<and> item_id r = i \<and> status r \<in> set status_values
           \<and> status r = (case st of None \<Rightarrow> ''In Queue'' | Some t \<Rightarrow> t)
           \<and> i \<notin> set (map item_id (items db))"
  using assms next_rowid_fresh [of "items_seq db" "map item_id (items db)"]
  by (auto simp: INSERT_item_def Let_def split: option.splits if_splits)

lemma UPDATE_item_status_writes:
  assumes "UPDATE_item_status db now k st = Inr db'"
  shows "orders db' = orders db"
    and "\<forall>r\<in>set (items db'). r \<in> set (items db) \<or> status r \<in> set status_values"
  using assms by (auto simp: UPDATE_item_status_def split: option.splits if_splits)

lemma INSERT_status_history_writes:
  assumes "INSERT_status_history db now k old new why = Inr db'"
  shows "orders db' = orders db" and "items db' = items db"
    and "\<exists>h. status_history db' = status_history db @ [h] \<and> h_item_id h = k
           \<and> old_status h = old \<and> Some (new_status h) = new \<and> reason h = why"
  using assms by (auto simp: INSERT_status_history_def Let_def split: option.splits if_splits)

lemma CreateItem_writes:
  assumes "CreateItem db now k name = Inr (db', i)"
  shows "orders db' = orders db"
    and "\<exists>r. items db' = items db @ [r] \<and> item_id r = i \<and> status r = status_text InQueue
           \<and> i \<notin> set (map item_id (items db))"
    and "\<exists>h. status_history db' = status_history db @ [h] \<and> h_item_id h = i
           \<and> old_status h = None \<and> new_status h = status_text InQueue
           \<and> reason h = Some ''created''"
proof -
  from assms obtain db1 where ins: "INSERT_item db now k name None = Inr (db1, i)"
    and hist: "INSERT_status_history db1 now i None (Some (status_text InQueue))
                 (Some ''created'') = Inr db'"
    by (auto simp: CreateItem_def split: sum.splits)
  show "orders db' = orders db"
    using INSERT_item_writes(1) [OF ins] INSERT_status_history_writes(1) [OF hist] by simp
  show "\<exists>r. items db' = items db @ [r] \<and> item_id r = i \<and> status r = status_text InQueue
           \<and> i \<notin> set (map item_id (items db))"
    using INSERT_item_writes(3) [OF ins] INSERT_status_history_writes(2) [OF hist] by auto
  show "\<exists>h. status_history db' = status_history db @ [h] \<and> h_item_id h = i
           \<and> old_status h = None \<and> new_status h = status_text InQueue
           \<and> reason h = Some ''created''"
    using INSERT_item_writes(2) [OF ins] INSERT_status_history_writes(3) [OF hist] by auto
qed

lemma AdvanceStatus_writes:
  assumes "AdvanceStatus db now k target why = Inr db'"
  shows "orders db' = orders db"
    and "\<forall>r\<in>set (items db'). r \<in> set (items db) \<or> status r = status_text target"
  using assms
  by (auto simp: AdvanceStatus_def Let_def split: option.splits if_splits)

lemma exec_orders:
  assumes "exec db now st = Some db'"
    and "\<forall>r\<in>set (orders db). platform r \<in> set platform_values"
  shows "\<forall>r\<in>set (orders db'). platform r \<in> set platform_values"
proof (cases st)
  case (Insert_order d)
  with assms(1) have "INSERT_order db now d = Inr db'" by (simp add: committed_Some)
  from INSERT_order_writes(2) [OF this] assms(2) show ?thesis by auto
next
  case (Update_order k d)
  with assms(1) have "UPDATE_order db now k d = Inr db'" by (simp add: committed_Some)
  from UPDATE_order_writes(2) [OF this] assms(2) show ?thesis by auto
next
  case (Insert_product k name)
  with assms(1) have "INSERT_product db now k name = Inr db'" by (simp add: committed_Some)
  from INSERT_product_writes(2) [OF this] assms(2) show ?thesis by simp
next
  case (Insert_item k name s)
  with assms(1) obtain i where "INSERT_item db now k name s = Inr (db', i)"
    by (cases "INSERT_item db now k name s") (auto simp: committed_Some)
  from INSERT_item_writes(1) [OF this] assms(2) show ?thesis by simp
next
  case (Update_item_status k s)
  with assms(1) have "UPDATE_item_status db now k s = Inr db'" by (simp add: committed_Some)
  from UPDATE_item_status_writes(1) [OF this] assms(2) show ?thesis by simp
next
  case (Insert_status_history k old new why)
  with assms(1) have "INSERT_status_history db now k old new why = Inr db'"
    by (simp add: committed_Some)
  from INSERT_status_history_writes(1) [OF this] assms(2) show ?thesis by simp
next
  case (Create_item k name)
  with assms(1) obtain i where "CreateItem db now k name = Inr (db', i)"
    by (cases "CreateItem db now k name") (auto simp: committed_Some)
  from CreateItem_writes(1) [OF this] assms(2) show ?thesis by simp
next
  case (Advance_status k target why)
  with assms(1) have "AdvanceStatus db now k target why = Inr db'"
    by (simp add: committed_Some)
  from AdvanceStatus_writes(1) [OF this] assms(2) show ?thesis by simp
qed

lemma reachable_orders:
  "reachable db \<Longrightarrow> \<forall>r\<in>set (orders db). platform r \<in> set platform_values"
proof (induction rule: reachable.induct)
  case initial
  show ?case by (simp add: empty_database_def)
next
  case (step db now st db')
  from step.hyps(2) step.IH show ?case by (rule exec_orders)
qed

lemma order_rejected:
  assumes "\<forall>p. o_platform d \<noteq> Some (platform_text p)"
  shows "\<exists>e. order_constraints others d = Some e"
proof (cases "o_platform d")
  case None
  then show ?thesis by (simp add: order_constraints_def)
next
  case (Some s)
  with assms have "s \<notin> set platform_values"
    using platform_text_values [of s] by auto
  with Some show ?thesis by (simp add: order_constraints_def)
qed

lemma order_accepted:
  assumes "o_order_number d = Some num" "num \<notin> set (map order_number (orders db))"
    and "o_customer_name d \<noteq> None" "o_ship_by_date d \<noteq> None"
    and "o_platform d = Some (platform_text p)"
  shows "\<exists>db' r. INSERT_order db now d = Inr db' \<and> orders db' = orders db @ [r]
           \<and> platform r = platform_text p \<and> order_number r = num"
proof -
  have "platform_text p \<in> set platform_values"
    using platform_text_values [of "platform_text p"] by blast
  with assms have "order_constraints (orders db) d = None"
    by (simp add: order_constraints_def)
  with assms show ?thesis
    by (simp add: INSERT_order_def Let_def)
qed

text \<open>
  Claim C4. In every reachable state the \<open>platform\<close> of every stored order is
  the stored text of one of the three values Shopify, Etsy, CustomOrder (the
  schema spells the last 'Custom Order'); an INSERT, and an UPDATE of a
  stored order, with any other platform value is rejected by the store; and
  each of the three values is accepted.
\<close>

theorem order_platform_enum:
  "(reachable db \<longrightarrow> (\<forall>r\<in>set (orders db). \<exists>p. platform r = platform_text p))
   \<and> ((\<forall>p. o_platform d \<noteq> Some (platform_text p))
        \<longrightarrow> (\<exists>e. INSERT_order db now d = Inl e)
          \<and> ((\<exists>r\<in>set (orders db). order_id r = orderId)
               \<longrightarrow> (\<exists>e. UPDATE_order db now orderId d = Inl e)))
   \<and> (o_order_number d = Some num \<and> num \<notin> set (map order_number (orders db))
        \<and> o_customer_name d \<noteq> None \<and> o_ship_by_date d \<noteq> None
        \<and> o_platform d = Some (platform_text p)
        \<longrightarrow> (\<exists>db' r. INSERT_order db now d = Inr db' \<and> orders db' = orders db @ [r]
               \<and> platform r = platform_text p \<and> order_number r = num))"
proof (intro conjI impI)
  assume "reachable db"
  then have "\<forall>r\<in>set (orders db). platform r \<in> set platform_values"
    by (rule reachable_orders)
  then show "\<forall>r\<in>set (orders db). \<exists>p. platform r = platform_text p"
    using platform_text_values by blast
next
  assume bad: "\<forall>p. o_platform d \<noteq> Some (platform_text p)"
  from order_rejected [OF bad, of "orders db"]
  show "\<exists>e. INSERT_order db now d = Inl e"
    by (auto simp: INSERT_order_def)
  assume "\<exists>r\<in>set (orders db). order_id r = orderId"
  with order_rejected [OF bad, of "filter (\<lambda>r. order_id r \<noteq> orderId) (orders db)"]
  show "\<exists>e. UPDATE_order db now orderId d = Inl e"
    by (auto simp: UPDATE_order_def)
next
  assume "o_order_number d = Some num \<and> num \<notin> set (map order_number (orders db))
        \<and> o_customer_name d \<noteq> None \<and> o_ship_by_date d \<noteq> None
        \<and> o_platform d = Some (platform_text p)"
  then show "\<exists>db' r. INSERT_order db now d = Inr db' \<and> orders db' = orders db @ [r]
               \<and> platform r = platform_text p \<and> order_number r = num"
    using order_accepted [of d num db p now] by blast
qed

lemma reachable_shop_db: "reachable shop_db"
proof -
  define db1 where "db1 = empty_database
     \<lparr>orders := [\<lparr>order_id = 1, order_number = ''001'', customer_name = ''Ada'',
                  platform = ''Etsy'', order_notes = None, ship_by_date = ''2025-11-01'',
                  is_express = 0, is_archived = 0, order_created_at = ''t1'',
                  order_updated_at = ''t1'', shipped_at = None\<rparr>],
      orders_seq := 1\<rparr>"
  define db2 where "db2 = db1
     \<lparr>products := [\<lparr>product_id = 1, p_order_id = 1, product_name = ''Marker Set'',
                    product_created_at = ''t2'', product_updated_at = ''t2''\<rparr>],
      products_seq := 1\<rparr>"
  have 1: "exec empty_database ''t1'' (Insert_order first_order) = Some db1"
    by (simp add: committed_def INSERT_order_def order_constraints_def first_order_def
        platform_values_def empty_database_def next_rowid_def db1_def)
  have 2: "exec db1 ''t2'' (Insert_product 1 (Some ''Marker Set'')) = Some db2"
    by (simp add: committed_def INSERT_product_def empty_database_def next_rowid_def
        db1_def db2_def)
  have 3: "exec db2 ''t3'' (Create_item 1 (Some ''Plate A'')) = Some shop_db"
    by (simp add: committed_def CreateItem_def INSERT_item_def INSERT_status_history_def
        status_values_def empty_database_def next_rowid_def db1_def db2_def shop_db_def)
  from reachable.initial 1 have "reachable db1" by (rule reachable.step)
  then have "reachable db2" using 2 by (rule reachable.step)
  then show ?thesis using 3 by (rule reachable.step)
qed

theorem order_platform_enum_witness:
  "reachable shop_db
   \<and> (\<exists>p. platform (hd (orders shop_db)) = platform_text p)
   \<and> (\<exists>e. INSERT_order shop_db ''t4'' (first_order\<lparr>o_platform := Some ''Amazon''\<rparr>) = Inl e)
   \<and> (\<exists>e. UPDATE_order shop_db ''t4'' 1 (first_order\<lparr>o_platform := Some ''Amazon''\<rparr>) = Inl e)
   \<and> (\<exists>db' r. INSERT_order shop_db ''t4''
          (first_order\<lparr>o_order_number := Some ''002'', o_platform := Some ''Custom Order''\<rparr>)
          = Inr db' \<and> orders db' = orders shop_db @ [r] \<and> platform r = ''Custom Order'')"
proof -
  have bad: "\<forall>p. o_platform (first_order\<lparr>o_platform := Some ''Amazon''\<rparr>)
      \<noteq> Some (platform_text p)"
  proof
    fix p show "o_platform (first_order\<lparr>o_platform := Some ''Amazon''\<rparr>)
      \<noteq> Some (platform_text p)"
      by (cases p) simp_all
  qed
  have stored: "hd (orders shop_db) \<in> set (orders shop_db)"
    "\<exists>r\<in>set (orders shop_db). order_id r = 1"
    by (simp_all add: shop_db_def)
  have good: "o_order_number (first_order\<lparr>o_order_number := Some ''002'',
        o_platform := Some ''Custom Order''\<rparr>) = Some ''002''"
    "''002'' \<notin> set (map order_number (orders shop_db))"
    "o_customer_name (first_order\<lparr>o_order_number := Some ''002'',
        o_platform := Some ''Custom Order''\<rparr>) \<noteq> None"
    "o_ship_by_date (first_order\<lparr>o_order_number := Some ''002'',
        o_platform := Some ''Custom Order''\<rparr>) \<noteq> None"
    "o_platform (first_order\<lparr>o_order_number := Some ''002'',
        o_platform := Some ''Custom Order''\<rparr>) = Some (platform_text CustomOrder)"
    by (simp_all add: first_order_def shop_db_def)
  note at_bad = order_platform_enum
    [where db = shop_db and d = "first_order\<lparr>o_platform := Some ''Amazon''\<rparr>"
       and now = "''t4''" and orderId = 1]
  note at_good = order_platform_enum
    [where db = shop_db and now = "''t4''" and num = "''002''" and p = CustomOrder
       and d = "first_order\<lparr>o_order_number := Some ''002'',
                  o_platform := Some ''Custom Order''\<rparr>"]
  have "\<exists>p. platform (hd (orders shop_db)) = platform_text p"
    using at_bad reachable_shop_db stored(1) by blast
  moreover have "\<exists>e. INSERT_order shop_db ''t4''
      (first_order\<lparr>o_platform := Some ''Amazon''\<rparr>) = Inl e"
    "\<exists>e. UPDATE_order shop_db ''t4'' 1 (first_order\<lparr>o_platform := Some ''Amazon''\<rparr>) = Inl e"
    using at_bad bad stored(2) by blast+
  moreover have "\<exists>db' r. INSERT_order shop_db ''t4''
          (first_order\<lparr>o_order_number := Some ''002'', o_platform := Some ''Custom Order''\<rparr>)
          = Inr db' \<and> orders db' = orders shop_db @ [r]
          \<and> platform r = platform_text CustomOrder"
    using at_good good by blast
  ultimately show ?thesis using reachable_shop_db by simp
qed

lemma status_text_stored: "status_text e \<in> set status_values"
  using status_text_values [of "status_text e"] by blast

lemma exec_items:
  assumes "exec db now st = Some db'"
    and "\<forall>r\<in>set (items db). status r \<in> set status_values"
  shows "\<forall>r\<in>set (items db'). status r \<in> set status_values"
proof (cases st)
  case (Insert_order d)
  with assms(1) have "INSERT_order db now d = Inr db'" by (simp add: committed_Some)
  from INSERT_order_writes(1) [OF this] assms(2) show ?thesis by simp
next
  case (Update_order k d)
  with assms(1) have "UPDATE_order db now k d = Inr db'" by (simp add: committed_Some)
  from UPDATE_order_writes(1) [OF this] assms(2) show ?thesis by simp
next
  case (Insert_product k name)
  with assms(1) have "INSERT_product db now k name = Inr db'" by (simp add: committed_Some)
  from INSERT_product_writes(1) [OF this] assms(2) show ?thesis by simp
next
  case (Insert_item k name s)
  with assms(1) obtain i where "INSERT_item db now k name s = Inr (db', i)"
    by (cases "INSERT_item db now k name s") (auto simp: committed_Some)
  from INSERT_item_writes(3) [OF this] assms(2) show ?thesis by auto
next
  case (Update_item_status k s)
  with assms(1) have "UPDATE_item_status db now k s = Inr db'" by (simp add: committed_Some)
  from UPDATE_item_status_writes(2) [OF this] assms(2) show ?thesis by auto
next
  case (Insert_status_history k old new why)
  with assms(1) have "INSERT_status_history db now k old new why = Inr db'"
    by (simp add: committed_Some)
  from INSERT_status_history_writes(2) [OF this] assms(2) show ?thesis by simp
next
  case (Create_item k name)
  with assms(1) obtain i where "CreateItem db now k name = Inr (db', i)"
    by (cases "CreateItem db now k name") (auto simp: committed_Some)
  from CreateItem_writes(2) [OF this] assms(2) status_text_stored [of InQueue]
  show ?thesis by auto
next
  case (Advance_status k target why)
  with assms(1) have "AdvanceStatus db now k target why = Inr db'"
    by (simp add: committed_Some)
  from AdvanceStatus_writes(2) [OF this] assms(2) status_text_stored [of target]
  show ?thesis by auto
qed

lemma reachable_items:
  "reachable db \<Longrightarrow> \<forall>r\<in>set (items db). status r \<in> set status_values"
proof (induction rule: reachable.induct)
  case initial
  show ?case by (simp add: empty_database_def)
next
  case (step db now st db')
  from step.hyps(2) step.IH show ?case by (rule exec_items)
qed

lemma CreateItem_succeeds:
  assumes "\<exists>p\<in>set (products db). product_id p = productId" and "name \<noteq> None"
  shows "\<exists>db' itemId. CreateItem db now productId name = Inr (db', itemId)"
proof -
  from assms obtain n where n: "name = Some n" by auto
  have q: "''In Queue'' \<in> set status_values" by (simp add: status_values_def)
  define i where "i = next_rowid (items_seq db) (map item_id (items db))"
  obtain db1 where ins: "INSERT_item db now productId name None = Inr (db1, i)"
    and its: "\<exists>r\<in>set (items db1). item_id r = i"
    using assms(1) n q by (simp add: INSERT_item_def Let_def i_def)
  then have "\<exists>db2. INSERT_status_history db1 now i None (Some (status_text InQueue))
      (Some ''created'') = Inr db2"
    by (simp add: INSERT_status_history_def Let_def)
  with ins show ?thesis by (auto simp: CreateItem_def)
qed

lemma status_rejected:
  assumes "\<forall>e. st \<noteq> Some (status_text e)"
  shows "st \<noteq> None \<longrightarrow> (\<exists>err. INSERT_item db now productId name st = Inl err)"
    and "(\<exists>i\<in>set (items db). item_id i = k)
           \<longrightarrow> (\<exists>err. UPDATE_item_status db now k st = Inl err)"
proof -
  have bad: "s \<notin> set status_values" if "st = Some s" for s
    using assms that status_text_values [of s] by auto
  show "st \<noteq> None \<longrightarrow> (\<exists>err. INSERT_item db now productId name st = Inl err)"
    using bad by (cases st; cases name) (auto simp: INSERT_item_def Let_def)
  show "(\<exists>i\<in>set (items db). item_id i = k)
           \<longrightarrow> (\<exists>err. UPDATE_item_status db now k st = Inl err)"
    using bad by (cases st) (auto simp: UPDATE_item_status_def)
qed

text \<open>
  Claim C2. In every reachable state the \<open>status\<close> of every stored item is
  the stored text of one of the six states, any other value being rejected
  by INSERT and UPDATE; item creation gives the new item the status InQueue
  and writes, with it, one StatusHistory row for it with \<open>old_status\<close> null,
  \<open>new_status\<close> InQueue and reason "created"; and creation succeeds for a
  stored product and a given name.
\<close>

theorem item_status_enum:
  "(reachable db \<longrightarrow> (\<forall>i\<in>set (items db). \<exists>e. status i = status_text e))
   \<and> ((\<forall>e. st \<noteq> Some (status_text e))
        \<longrightarrow> (st \<noteq> None \<longrightarrow> (\<exists>err. INSERT_item db now productId name st = Inl err))
          \<and> ((\<exists>i\<in>set (items db). item_id i = k)
               \<longrightarrow> (\<exists>err. UPDATE_item_status db now k st = Inl err)))
   \<and> (CreateItem db now productId name = Inr (db', itemId)
        \<longrightarrow> (\<exists>i. items db' = items db @ [i] \<and> item_id i = itemId
                \<and> status i = status_text InQueue
                \<and> itemId \<notin> set (map item_id (items db)))
          \<and> (\<exists>h. status_history db' = status_history db @ [h] \<and> h_item_id h = itemId
                \<and> old_status h = None \<and> new_status h = status_text InQueue
                \<and> reason h = Some ''created''))
   \<and> ((\<exists>p\<in>set (products db). product_id p = productId) \<and> name \<noteq> None
        \<longrightarrow> (\<exists>db2 newId. CreateItem db now productId name = Inr (db2, newId)))"
proof (intro conjI impI)
  assume "reachable db"
  then have "\<forall>r\<in>set (items db). status r \<in> set status_values"
    by (rule reachable_items)
  then show "\<forall>i\<in>set (items db). \<exists>e. status i = status_text e"
    using status_text_values by blast
next
  assume bad: "\<forall>e. st \<noteq> Some (status_text e)"
  {
    assume "st \<noteq> None"
    with status_rejected(1) [OF bad]
    show "\<exists>err. INSERT_item db now productId name st = Inl err" by blast
  }
  {
    assume "\<exists>i\<in>set (items db). item_id i = k"
    with status_rejected(2) [OF bad]
    show "\<exists>err. UPDATE_item_status db now k st = Inl err" by blast
  }
next
  assume created: "CreateItem db now productId name = Inr (db', itemId)"
  show "\<exists>i. items db' = items db @ [i] \<and> item_id i = itemId
                \<and> status i = status_text InQueue
                \<and> itemId \<notin> set (map item_id (items db))"
    using created by (rule CreateItem_writes)
  show "\<exists>h. status_history db' = status_history db @ [h] \<and> h_item_id h = itemId
                \<and> old_status h = None \<and> new_status h = status_text InQueue
                \<and> reason h = Some ''created''"
    using created by (rule CreateItem_writes)
next
  assume "(\<exists>p\<in>set (products db). product_id p = productId) \<and> name \<noteq> None"
  then show "\<exists>db2 newId. CreateItem db now productId name = Inr (db2, newId)"
    using CreateItem_succeeds by blast
qed

theorem item_status_enum_witness:
  "reachable shop_db
   \<and> (\<exists>e. status (hd (items shop_db)) = status_text e)
   \<and> (\<exists>err. INSERT_item shop_db ''t4'' 1 (Some ''Plate B'') (Some ''Lost'') = Inl err)
   \<and> (\<exists>err. UPDATE_item_status shop_db ''t4'' 1 (Some ''Lost'') = Inl err)
   \<and> (\<exists>db2 newId. CreateItem shop_db ''t4'' 1 (Some ''Plate B'') = Inr (db2, newId)
        \<and> (\<exists>i. items db2 = items shop_db @ [i] \<and> item_id i = newId
              \<and> status i = ''In Queue'')
        \<and> (\<exists>h. status_history db2 = status_history shop_db @ [h] \<and> h_item_id h = newId
              \<and> old_status h = None \<and> new_status h = ''In Queue''
              \<and> reason h = Some ''created''))"
proof -
  have bad: "\<forall>e. Some ''Lost'' \<noteq> Some (status_text e)"
  proof
    fix e show "Some ''Lost'' \<noteq> Some (status_text e)" by (cases e) simp_all
  qed
  have stored: "hd (items shop_db) \<in> set (items shop_db)"
    "\<exists>i\<in>set (items shop_db). item_id i = 1"
    "\<exists>p\<in>set (products shop_db). product_id p = 1"
    by (simp_all add: shop_db_def)
  note at_lost = item_status_enum
    [where db = shop_db and st = "Some ''Lost''" and now = "''t4''" and productId = 1
       and name = "Some ''Plate B''" and k = 1]
  have "\<exists>e. status (hd (items shop_db)) = status_text e"
    using at_lost reachable_shop_db stored(1) by blast
  moreover have "\<exists>err. INSERT_item shop_db ''t4'' 1 (Some ''Plate B'') (Some ''Lost'') = Inl err"
    "\<exists>err. UPDATE_item_status shop_db ''t4'' 1 (Some ''Lost'') = Inl err"
    using at_lost bad stored(2) by blast+
  moreover obtain db2 newId
    where created: "CreateItem shop_db ''t4'' 1 (Some ''Plate B'') = Inr (db2, newId)"
    using at_lost stored(3) by blast
  have "(\<exists>i. items db2 = items shop_db @ [i] \<and> item_id i = newId
              \<and> status i = status_text InQueue)
        \<and> (\<exists>h. status_history db2 = status_history shop_db @ [h] \<and> h_item_id h = newId
              \<and> old_status h = None \<and> new_status h = status_text InQueue
              \<and> reason h = Some ''created'')"
    using item_status_enum
      [where db = shop_db and now = "''t4''" and productId = 1 and name = "Some ''Plate B''"
         and db' = db2 and itemId = newId] created
    by blast
  ultimately show ?thesis using reachable_shop_db created by auto
qed

section \<open>Forward-only status transitions\<close>

lemma status_of_text_text: "status_of_text (status_text e) = Some e"
  by (cases e) (simp_all add: status_of_text_def)

lemma successor_rank: "successor a = Some b \<longleftrightarrow> rank b = Suc (rank a)"
  by (cases a; cases b) simp_all

lemma AdvanceStatus_success:
  assumes "AdvanceStatus db now j t why = Inr db1"
  shows "\<exists>itj h. find (\<lambda>i. item_id i = j) (items db) = Some itj
           \<and> Option.bind (status_of_text (status itj)) successor = Some t
           \<and> status_history db1 = status_history db @ [h]
           \<and> h_item_id h = j \<and> old_status h = Some (status itj)
           \<and> new_status h = status_text t
           \<and> items db1 = map (\<lambda>r. if item_id r = j
                 then r\<lparr>status := status_text t, item_updated_at := now\<rparr> else r) (items db)"
  using assms
  by (cases "find (\<lambda>i. item_id i = j) (items db)")
     (auto simp: AdvanceStatus_def Let_def split: if_splits)

lemma AdvanceStatus_decided:
  assumes "find (\<lambda>i. item_id i = j) (items db) = Some it"
  shows "Option.bind (status_of_text (status it)) successor = Some t
           \<Longrightarrow> \<exists>db1. AdvanceStatus db now j t why = Inr db1"
    and "Option.bind (status_of_text (status it)) successor \<noteq> Some t
           \<Longrightarrow> AdvanceStatus db now j t why = Inl InvalidTransition"
  using assms by (simp_all add: AdvanceStatus_def Let_def)

lemma run_advances_history:
  "\<exists>hs. status_history (run_advances db calls) = status_history db @ hs"
proof (induction calls arbitrary: db)
  case Nil
  show ?case by simp
next
  case (Cons call calls)
  obtain now j t why where call: "call = (now, j, t, why)" by (cases call) auto
  show ?case
  proof (cases "AdvanceStatus db now j t why")
    case (Inl e)
    with call Cons.IH [of db] show ?thesis by simp
  next
    case (Inr db1)
    from AdvanceStatus_success [OF Inr] obtain h
      where "status_history db1 = status_history db @ [h]" by blast
    moreover from Cons.IH [of db1] obtain hs
      where "status_history (run_advances db1 calls) = status_history db1 @ hs" ..
    ultimately show ?thesis using call Inr by simp
  qed
qed

lemma run_advances_forward:
  assumes "find (\<lambda>i. item_id i = k) (items db) = Some it"
  shows "forward_path (status it)
           (filter (\<lambda>h. h_item_id h = k)
              (drop (length (status_history db)) (status_history (run_advances db calls))))"
  using assms
proof (induction calls arbitrary: db it)
  case Nil
  show ?case by simp
next
  case (Cons call calls)
  obtain now j t why where call: "call = (now, j, t, why)" by (cases call) auto
  show ?case
  proof (cases "AdvanceStatus db now j t why")
    case (Inl e)
    with call Cons.IH [OF Cons.prems] show ?thesis by simp
  next
    case (Inr db1)
    from AdvanceStatus_success [OF Inr] obtain itj h
      where itj: "find (\<lambda>i. item_id i = j) (items db) = Some itj"
        and next_t: "Option.bind (status_of_text (status itj)) successor = Some t"
        and hist: "status_history db1 = status_history db @ [h]"
        and h: "h_item_id h = j" "old_status h = Some (status itj)"
          "new_status h = status_text t"
        and its: "items db1 = map (\<lambda>r. if item_id r = j
                 then r\<lparr>status := status_text t, item_updated_at := now\<rparr> else r) (items db)"
      by blast
    define upd where "upd = (\<lambda>r::item. if item_id r = j
                 then r\<lparr>status := status_text t, item_updated_at := now\<rparr> else r)"
    have "find (\<lambda>i. item_id i = k) (items db1) = map_option upd (find (\<lambda>i. item_id i = k) (items db))"
      unfolding its upd_def [symmetric] by (rule find_map_upd) (simp add: upd_def)
    then have found: "find (\<lambda>i. item_id i = k) (items db1) = Some (upd it)"
      using Cons.prems by simp
    from run_advances_history [of db1 calls] obtain hs
      where hs: "status_history (run_advances db1 calls) = status_history db1 @ hs" ..
    have rest: "forward_path (status (upd it)) (filter (\<lambda>h. h_item_id h = k) hs)"
      using Cons.IH [OF found] hs by simp
    have run: "status_history (run_advances db (call # calls)) = status_history db @ h # hs"
      using call Inr hs hist by simp
    show ?thesis
    proof (cases "j = k")
      case False
      then have "status (upd it) = status it"
        using find_Some_iff [THEN iffD1, OF Cons.prems] by (auto simp: upd_def)
      with rest run False h(1) show ?thesis by simp
    next
      case True
      with itj Cons.prems have same: "itj = it" by simp
      have "item_id it = k"
        using find_Some_iff [THEN iffD1, OF Cons.prems] by auto
      with True have now_at: "status (upd it) = status_text t" by (simp add: upd_def)
      from next_t same obtain a where a: "status_of_text (status it) = Some a"
        "successor a = Some t"
        by (cases "status_of_text (status it)") auto
      then have "rank t = Suc (rank a)" by (simp add: successor_rank)
      with a h same rest now_at run True show ?thesis
        by (simp add: status_of_text_text)
    qed
  qed
qed

text \<open>
  Claim C1. For a stored item whose status is the state \<open>cur\<close>,
  \<open>AdvanceStatus\<close> succeeds if and only if \<open>targetStatus\<close> is the immediate
  successor of \<open>cur\<close> in the order InQueue, InPrintfarm, Printed, Assembled,
  Packed, Shipped (the state of the next rank); otherwise it fails with
  \<open>InvalidTransition\<close> and the store, so the item's status, is unchanged; on
  success the item has the target status. Under any sequence of
  \<open>AdvanceStatus\<close> calls the history rows written for the item form a
  strictly forward path from its status.
\<close>

theorem AdvanceStatus_forward_only:
  "find (\<lambda>i. item_id i = itemId) (items db) = Some it \<and> status it = status_text cur \<longrightarrow>
     ((\<exists>db'. AdvanceStatus db now itemId targetStatus why = Inr db')
        \<longleftrightarrow> successor cur = Some targetStatus)
     \<and> (successor cur = Some targetStatus \<longleftrightarrow> rank targetStatus = Suc (rank cur))
     \<and> (successor cur \<noteq> Some targetStatus \<longrightarrow>
          AdvanceStatus db now itemId targetStatus why = Inl InvalidTransition
          \<and> run_advances db [(now, itemId, targetStatus, why)] = db)
     \<and> (\<forall>db'. AdvanceStatus db now itemId targetStatus why = Inr db' \<longrightarrow>
          map_option status (find (\<lambda>i. item_id i = itemId) (items db'))
            = Some (status_text targetStatus))
     \<and> forward_path (status it)
          (filter (\<lambda>h. h_item_id h = itemId)
             (drop (length (status_history db)) (status_history (run_advances db calls))))"
proof (intro impI)
  assume "find (\<lambda>i. item_id i = itemId) (items db) = Some it \<and> status it = status_text cur"
  then have it: "find (\<lambda>i. item_id i = itemId) (items db) = Some it"
    and cur: "Option.bind (status_of_text (status it)) successor = successor cur"
    by (simp_all add: status_of_text_text)
  have iff: "(\<exists>db'. AdvanceStatus db now itemId targetStatus why = Inr db')
        \<longleftrightarrow> successor cur = Some targetStatus"
  proof
    assume ok: "\<exists>db'. AdvanceStatus db now itemId targetStatus why = Inr db'"
    show "successor cur = Some targetStatus"
    proof (rule ccontr)
      assume "successor cur \<noteq> Some targetStatus"
      with cur have "AdvanceStatus db now itemId targetStatus why = Inl InvalidTransition"
        by (intro AdvanceStatus_decided(2) [OF it]) simp
      with ok show False by simp
    qed
  next
    assume "successor cur = Some targetStatus"
    with cur show "\<exists>db'. AdvanceStatus db now itemId targetStatus why = Inr db'"
      by (intro AdvanceStatus_decided(1) [OF it]) simp
  qed
  have fails: "successor cur \<noteq> Some targetStatus \<longrightarrow>
          AdvanceStatus db now itemId targetStatus why = Inl InvalidTransition
          \<and> run_advances db [(now, itemId, targetStatus, why)] = db"
  proof
    assume "successor cur \<noteq> Some targetStatus"
    with cur have "AdvanceStatus db now itemId targetStatus why = Inl InvalidTransition"
      by (intro AdvanceStatus_decided(2) [OF it]) simp
    then show "AdvanceStatus db now itemId targetStatus why = Inl InvalidTransition
          \<and> run_advances db [(now, itemId, targetStatus, why)] = db"
      by simp
  qed
  have reaches: "\<forall>db'. AdvanceStatus db now itemId targetStatus why = Inr db' \<longrightarrow>
          map_option status (find (\<lambda>i. item_id i = itemId) (items db'))
            = Some (status_text targetStatus)"
  proof (intro allI impI)
    fix db'
    assume ok: "AdvanceStatus db now itemId targetStatus why = Inr db'"
    define upd where "upd = (\<lambda>r::item. if item_id r = itemId
        then r\<lparr>status := status_text targetStatus, item_updated_at := now\<rparr> else r)"
    from AdvanceStatus_success [OF ok] have its: "items db' = map upd (items db)"
      unfolding upd_def by blast
    have "find (\<lambda>i. item_id i = itemId) (items db')
        = map_option upd (find (\<lambda>i. item_id i = itemId) (items db))"
      unfolding its by (rule find_map_upd) (simp add: upd_def)
    moreover have "item_id it = itemId"
      using find_Some_iff [THEN iffD1, OF it] by auto
    ultimately show "map_option status (find (\<lambda>i. item_id i = itemId) (items db'))
            = Some (status_text targetStatus)"
      using it by (simp add: upd_def)
  qed
  from iff successor_rank [of cur targetStatus] fails reaches
    run_advances_forward [OF it, of calls]
  show "((\<exists>db'. AdvanceStatus db now itemId targetStatus why = Inr db')
        \<longleftrightarrow> successor cur = Some targetStatus)
     \<and> (successor cur = Some targetStatus \<longleftrightarrow> rank targetStatus = Suc (rank cur))
     \<and> (successor cur \<noteq> Some targetStatus \<longrightarrow>
          AdvanceStatus db now itemId targetStatus why = Inl InvalidTransition
          \<and> run_advances db [(now, itemId, targetStatus, why)] = db)
     \<and> (\<forall>db'. AdvanceStatus db now itemId targetStatus why = Inr db' \<longrightarrow>
          map_option status (find (\<lambda>i. item_id i = itemId) (items db'))
            = Some (status_text targetStatus))
     \<and> forward_path (status it)
          (filter (\<lambda>h. h_item_id h = itemId)
             (drop (length (status_history db)) (status_history (run_advances db calls))))"
    by blast
qed

theorem AdvanceStatus_forward_only_witness:
  "find (\<lambda>i. item_id i = 1) (items shop_db) = Some (hd (items shop_db))
   \<and> status (hd (items shop_db)) = status_text InQueue
   \<and> (\<exists>db'. AdvanceStatus shop_db ''t4'' 1 InPrintfarm None = Inr db')
   \<and> AdvanceStatus shop_db ''t4'' 1 Printed None = Inl InvalidTransition
   \<and> forward_path ''In Queue''
        (filter (\<lambda>h. h_item_id h = 1)
           (drop (length (status_history shop_db))
              (status_history (run_advances shop_db
                 [(''t4'', 1, InPrintfarm, None), (''t5'', 1, Assembled, None),
                  (''t6'', 1, Printed, Some ''plate done'')]))))"
proof -
  have it: "find (\<lambda>i. item_id i = 1) (items shop_db) = Some (hd (items shop_db))
      \<and> status (hd (items shop_db)) = status_text InQueue"
    by (simp add: shop_db_def)
  have st: "status (hd (items shop_db)) = ''In Queue''"
    by (simp add: shop_db_def)
  note at_next = AdvanceStatus_forward_only
    [where db = shop_db and itemId = 1 and it = "hd (items shop_db)" and cur = InQueue
       and now = "''t4''" and targetStatus = InPrintfarm and why = None
       and calls = "[(''t4'', 1, InPrintfarm, None), (''t5'', 1, Assembled, None),
                  (''t6'', 1, Printed, Some ''plate done'')]"]
  note at_skip = AdvanceStatus_forward_only
    [where db = shop_db and itemId = 1 and it = "hd (items shop_db)" and cur = InQueue
       and now = "''t4''" and targetStatus = Printed and why = None]
  have "\<exists>db'. AdvanceStatus shop_db ''t4'' 1 InPrintfarm None = Inr db'"
    using at_next it by simp
  moreover have "AdvanceStatus shop_db ''t4'' 1 Printed None = Inl InvalidTransition"
    using at_skip it by simp
  moreover have "forward_path ''In Queue''
        (filter (\<lambda>h. h_item_id h = 1)
           (drop (length (status_history shop_db))
              (status_history (run_advances shop_db
                 [(''t4'', 1, InPrintfarm, None), (''t5'', 1, Assembled, None),
                  (''t6'', 1, Printed, Some ''plate done'')]))))"
    using at_next it st by simp
  ultimately show ?thesis using it by simp
qed

section \<open>Order numbers\<close>

lemma digit_char_digit:
  assumes "d < 10"
  shows "is_digit (digit_char d)" and "digit_val (digit_char d) = d"
proof -
  have "of_char (digit_char d) = (48 + d :: nat)"
    using assms by (simp add: digit_char_def)
  then show "is_digit (digit_char d)" and "digit_val (digit_char d) = d"
    using assms by (simp_all add: is_digit_def digit_val_def less_eq_char_def)
qed

lemma string_of_nat_nonempty: "string_of_nat n \<noteq> []"
  by (subst string_of_nat.simps) simp

lemma string_of_nat_digits: "list_all is_digit (string_of_nat n)"
proof (induction n rule: string_of_nat.induct)
  case (1 n)
  show ?case
  proof (cases "n < 10")
    case True
    then show ?thesis
      by (subst string_of_nat.simps) (simp add: digit_char_digit)
  next
    case False
    with 1 show ?thesis
      by (subst string_of_nat.simps) (simp add: digit_char_digit)
  qed
qed

lemma string_of_nat_value:
  "foldl (\<lambda>n c. 10 * n + digit_val c) 0 (string_of_nat n) = n"
proof (induction n rule: string_of_nat.induct)
  case (1 n)
  show ?case
  proof (cases "n < 10")
    case True
    then show ?thesis
      by (subst string_of_nat.simps) (simp add: digit_char_digit)
  next
    case False
    with 1 show ?thesis
      by (subst string_of_nat.simps) (simp add: digit_char_digit)
  qed
qed

lemma zero_digit: "is_digit (CHR ''0'')" "digit_val (CHR ''0'') = 0"
  by (simp_all add: is_digit_def digit_val_def)

lemma leading_zeros_value:
  "foldl (\<lambda>n c. 10 * n + digit_val c) 0 (replicate k (CHR ''0'') @ s)
     = foldl (\<lambda>n c. 10 * n + digit_val c) 0 s"
  by (induction k) (simp_all add: zero_digit)

lemma parse_nat_padded: "parse_nat (zero_pad w (string_of_nat n)) = Some n"
proof -
  let ?s = "replicate (w - length (string_of_nat n)) (CHR ''0'') @ string_of_nat n"
  have "\<forall>c\<in>set (string_of_nat n). is_digit c"
    using string_of_nat_digits [of n] by (simp only: list_all_iff)
  then have "list_all is_digit ?s"
    by (auto simp: list_all_iff zero_digit)
  moreover have "?s \<noteq> []"
    by (simp add: string_of_nat_nonempty)
  moreover have "foldl (\<lambda>n c. 10 * n + digit_val c) 0 ?s = n"
    by (simp only: leading_zeros_value string_of_nat_value)
  ultimately show ?thesis
    by (simp only: parse_nat_def zero_pad_def) simp
qed

lemma string_of_nat_short: "n < 1000 \<Longrightarrow> length (string_of_nat n) \<le> 3"
  by (subst string_of_nat.simps, subst string_of_nat.simps, subst string_of_nat.simps) simp

lemma string_of_nat_step:
  "\<not> n < 10 \<Longrightarrow> string_of_nat n = string_of_nat (n div 10) @ [digit_char (n mod 10)]"
  by (subst string_of_nat.simps) simp

lemma thousand_digits: "999 < (n::nat) \<Longrightarrow> \<not> n < 10 \<and> \<not> n div 10 < 10 \<and> \<not> n div 10 div 10 < 10"
  by (simp add: not_less less_eq_div_iff_mult_less_eq)

lemma string_of_nat_long:
  assumes "999 < n"
  shows "3 < length (string_of_nat n)"
proof -
  have big: "\<not> n < 10" "\<not> n div 10 < 10" "\<not> n div 10 div 10 < 10"
    using thousand_digits [OF assms] by blast+
  have "0 < length (string_of_nat (n div 10 div 10 div 10))"
    using string_of_nat_nonempty by simp
  moreover have "length (string_of_nat n) = Suc (length (string_of_nat (n div 10)))"
    by (simp only: string_of_nat_step [OF big(1)] length_append_singleton)
  moreover have "length (string_of_nat (n div 10)) = Suc (length (string_of_nat (n div 10 div 10)))"
    by (simp only: string_of_nat_step [OF big(2)] length_append_singleton)
  moreover have "length (string_of_nat (n div 10 div 10))
      = Suc (length (string_of_nat (n div 10 div 10 div 10)))"
    by (simp only: string_of_nat_step [OF big(3)] length_append_singleton)
  ultimately show ?thesis by linarith
qed

lemma next_number_Max:
  "next_number existing =
     (if List.map_filter parse_nat existing = [] then 1
      else Max (set (List.map_filter parse_nat existing)) + 1)"
proof (cases "List.map_filter parse_nat existing")
  case Nil
  then show ?thesis by (simp add: next_number_def)
next
  case (Cons a ns)
  have "fold max ns a = Max (set (a # ns))"
    by (simp only: Max.set_eq_fold)
  with Cons show ?thesis by (simp add: next_number_def)
qed

lemma parsed_member:
  "s \<in> set existing \<Longrightarrow> parse_nat s = Some m \<Longrightarrow> m \<in> set (List.map_filter parse_nat existing)"
  by (auto simp: map_filter_def image_iff intro!: bexI [of _ s])

lemma next_number_above:
  assumes "s \<in> set existing" "parse_nat s = Some m"
  shows "m < next_number existing"
proof -
  from assms have m: "m \<in> set (List.map_filter parse_nat existing)" by (rule parsed_member)
  then have "m \<le> Max (set (List.map_filter parse_nat existing))" by simp
  moreover from m have "List.map_filter parse_nat existing \<noteq> []" by auto
  ultimately show ?thesis by (simp add: next_number_Max)
qed

lemma next_order_number_fresh: "next_order_number existing \<notin> set existing"
proof
  assume "next_order_number existing \<in> set existing"
  moreover have "parse_nat (next_order_number existing) = Some (next_number existing)"
    by (simp add: next_order_number_def parse_nat_padded)
  ultimately have "next_number existing < next_number existing" by (rule next_number_above)
  then show False by simp
qed

lemma map_filter_numeric:
  "List.map_filter parse_nat (filter (\<lambda>s. parse_nat s \<noteq> None) existing)
     = List.map_filter parse_nat existing"
  by (induction existing) (auto simp: map_filter_def)

lemma next_order_number_numeric:
  "next_order_number (filter (\<lambda>s. parse_nat s \<noteq> None) existing) = next_order_number existing"
  by (simp only: next_order_number_def next_number_def map_filter_numeric)

lemma next_order_number_length:
  "next_number existing \<le> 999 \<longrightarrow> length (next_order_number existing) = 3"
  "999 < next_number existing \<longrightarrow> next_order_number existing = string_of_nat (next_number existing)"
  using string_of_nat_short [of "next_number existing"]
    string_of_nat_long [of "next_number existing"]
  by (auto simp: next_order_number_def zero_pad_def)

lemma next_order_number_examples:
  "next_order_number [''001'', ''002'', ''007''] = ''008''"
  "next_order_number [] = ''001''"
  "next_order_number [''001'', ''002'', ''CUSTOM-1'', ''007''] = ''008''"
  "next_order_number [''CUSTOM-1''] = ''001''"
  by code_simp+

lemma CreateOrder_generated:
  assumes "o_order_number d = None" "o_customer_name d \<noteq> None" "o_ship_by_date d \<noteq> None"
    and "o_platform d = Some (platform_text p)"
  shows "\<exists>db' r. CreateOrder db now d = Inr db' \<and> orders db' = orders db @ [r]
           \<and> order_number r = next_order_number (map order_number (orders db))"
proof -
  let ?num = "next_order_number (map order_number (orders db))"
  let ?d = "d\<lparr>o_order_number := Some ?num\<rparr>"
  have "\<exists>db' r. INSERT_order db now ?d = Inr db' \<and> orders db' = orders db @ [r]
           \<and> platform r = platform_text p \<and> order_number r = ?num"
    using assms next_order_number_fresh [of "map order_number (orders db)"]
    by (intro order_accepted) simp_all
  with assms(1) show ?thesis by (auto simp: CreateOrder_def)
qed

lemma CreateOrder_duplicate:
  assumes "o_order_number d = Some num" "num \<in> set (map order_number (orders db))"
    and "o_customer_name d \<noteq> None" "o_ship_by_date d \<noteq> None"
    and "o_platform d = Some (platform_text p)"
  shows "CreateOrder db now d = Inl (UNIQUE_constraint_failed ''orders.order_number'')"
proof -
  have "platform_text p \<in> set platform_values"
    using platform_text_values [of "platform_text p"] by blast
  with assms show ?thesis
    by (simp add: CreateOrder_def INSERT_order_def order_constraints_def)
qed

lemma next_order_number_parses:
  "parse_nat (next_order_number existing) = Some (next_number existing)"
  by (simp add: next_order_number_def parse_nat_padded)

lemma CreateOrder_numbers:
  "o_customer_name d \<noteq> None \<and> o_ship_by_date d \<noteq> None
       \<and> o_platform d = Some (platform_text p)
      \<longrightarrow> (o_order_number d = None
            \<longrightarrow> (\<exists>db' r. CreateOrder db now d = Inr db' \<and> orders db' = orders db @ [r]
                   \<and> order_number r = next_order_number (map order_number (orders db))))
        \<and> (\<forall>num. o_order_number d = Some num \<and> num \<in> set (map order_number (orders db))
            \<longrightarrow> CreateOrder db now d
                  = Inl (UNIQUE_constraint_failed ''orders.order_number''))"
  using CreateOrder_generated [of d p db now] CreateOrder_duplicate [of d _ db p now]
  by blast

text \<open>
  Claim C3. The generated order number reads as one plus the numeric maximum
  of the existing order numbers that parse as integers (1 when there is
  none); it has 3 digits, zero-padded, while the value is at most 999 and is
  the plain decimal numeral afterwards. Order numbers that are not numeric
  play no part in it, yet the one UNIQUE constraint covers them all: the
  generated number is never an existing one, an order created without a
  number is stored under the generated one, and an explicit number that is
  already stored is refused. From {"001","002","007"} the next number is
  "008", from no numeric number "001".
\<close>

theorem next_order_number_sequential:
  "parse_nat (next_order_number existing) = Some (next_number existing)
   \<and> next_number existing =
       (if List.map_filter parse_nat existing = [] then 1
        else Max (set (List.map_filter parse_nat existing)) + 1)
   \<and> (next_number existing \<le> 999 \<longrightarrow> length (next_order_number existing) = 3)
   \<and> (999 < next_number existing
        \<longrightarrow> next_order_number existing = string_of_nat (next_number existing))
   \<and> next_order_number (filter (\<lambda>s. parse_nat s \<noteq> None) existing)
       = next_order_number existing
   \<and> next_order_number existing \<notin> set existing
   \<and> next_order_number [''001'', ''002'', ''007''] = ''008''
   \<and> next_order_number [] = ''001''
   \<and> next_order_number [''001'', ''002'', ''CUSTOM-1'', ''007''] = ''008''
   \<and> next_order_number [''CUSTOM-1''] = ''001''
   \<and> (o_customer_name d \<noteq> None \<and> o_ship_by_date d \<noteq> None
       \<and> o_platform d = Some (platform_text p)
      \<longrightarrow> (o_order_number d = None
            \<longrightarrow> (\<exists>db' r. CreateOrder db now d = Inr db' \<and> orders db' = orders db @ [r]
                   \<and> order_number r = next_order_number (map order_number (orders db))))
        \<and> (\<forall>num. o_order_number d = Some num \<and> num \<in> set (map order_number (orders db))
            \<longrightarrow> CreateOrder db now d
                  = Inl (UNIQUE_constraint_failed ''orders.order_number'')))"
  by (intro conjI)
     (rule next_order_number_parses next_number_Max next_order_number_length
        next_order_number_numeric next_order_number_fresh next_order_number_examples
        CreateOrder_numbers)+

theorem next_order_number_sequential_witness:
  "next_number [''001'', ''002'', ''CUSTOM-1'', ''007''] = 8
   \<and> length (next_order_number [''001'', ''002'', ''CUSTOM-1'', ''007'']) = 3
   \<and> next_number [''999''] = 1000
   \<and> next_order_number [''999''] = string_of_nat 1000
   \<and> o_order_number (first_order\<lparr>o_order_number := None\<rparr>) = None
   \<and> (\<exists>db' r. CreateOrder shop_db ''t4'' (first_order\<lparr>o_order_number := None\<rparr>) = Inr db'
         \<and> orders db' = orders shop_db @ [r] \<and> order_number r = ''002'')
   \<and> o_order_number first_order = Some ''001''
   \<and> CreateOrder shop_db ''t4'' first_order
       = Inl (UNIQUE_constraint_failed ''orders.order_number'')"
proof -
  have small: "next_number [''001'', ''002'', ''CUSTOM-1'', ''007''] = 8"
    and large: "next_number [''999''] = 1000"
    and second: "next_order_number [''001''] = ''002''"
    by code_simp+
  have stored: "map order_number (orders shop_db) = [''001'']"
    by (simp add: shop_db_def)
  have d: "o_customer_name (first_order\<lparr>o_order_number := None\<rparr>) \<noteq> None
      \<and> o_ship_by_date (first_order\<lparr>o_order_number := None\<rparr>) \<noteq> None
      \<and> o_platform (first_order\<lparr>o_order_number := None\<rparr>) = Some (platform_text Etsy)"
    "o_order_number (first_order\<lparr>o_order_number := None\<rparr>) = None"
    and d1: "o_customer_name first_order \<noteq> None \<and> o_ship_by_date first_order \<noteq> None
      \<and> o_platform first_order = Some (platform_text Etsy)"
    "o_order_number first_order = Some ''001''"
    by (simp_all add: first_order_def)
  note at_small = next_order_number_sequential
    [where existing = "[''001'', ''002'', ''CUSTOM-1'', ''007'']" and db = shop_db
       and d = "first_order\<lparr>o_order_number := None\<rparr>" and p = Etsy and now = "''t4''"]
  note at_large = next_order_number_sequential
    [where existing = "[''999'']" and db = shop_db and d = first_order and p = Etsy
       and now = "''t4''"]
  have "length (next_order_number [''001'', ''002'', ''CUSTOM-1'', ''007'']) = 3"
    using at_small small by simp
  moreover have "next_order_number [''999''] = string_of_nat 1000"
    using at_large large by simp
  moreover have "\<exists>db' r. CreateOrder shop_db ''t4'' (first_order\<lparr>o_order_number := None\<rparr>)
         = Inr db'
         \<and> orders db' = orders shop_db @ [r]
         \<and> order_number r = next_order_number (map order_number (orders shop_db))"
    using at_small d by blast
  then have "\<exists>db' r. CreateOrder shop_db ''t4'' (first_order\<lparr>o_order_number := None\<rparr>)
         = Inr db'
         \<and> orders db' = orders shop_db @ [r] \<and> order_number r = ''002''"
    by (simp only: stored second)
  moreover have "CreateOrder shop_db ''t4'' first_order
       = Inl (UNIQUE_constraint_failed ''orders.order_number'')"
    using at_large d1 stored by simp
  ultimately show ?thesis using small large d(2) d1(2) by simp
qed

end
